theory Spec2Isabelle
  imports Complex_Main "HOL-Library.Word"
begin

section \<open>Data model\<close>

text \<open>
  The repository holds several near-identical Go (TinyGo, wasm32) modules, each exporting
  \<^verbatim>\<open>generate_ollama\<close>. Two of them are embedded here:
  \<^item> \<^verbatim>\<open>src/main.go\<close>, which validates inline and fetches the reply through
    \<^verbatim>\<open>readHttpResponseFromFloat\<close>; its functions keep their source names;
  \<^item> the first module of \<^verbatim>\<open>src/unnamed/part_000\<close> (lines 1-422), which has
    \<^verbatim>\<open>validateInput\<close>, \<^verbatim>\<open>createErrorOutput\<close>, \<^verbatim>\<open>buildMetadata\<close> and a simulated
    reply; where a name is shared with main.go it carries the suffix \<open>_reagent\<close>.

  A Go \<^verbatim>\<open>string\<close> and a \<^verbatim>\<open>[]byte\<close> are byte sequences: both are \<^typ>\<open>string\<close>
  (a list of 8-bit characters), so \<^verbatim>\<open>len\<close> is \<^const>\<open>length\<close> and the conversions
  between the two are the identity.
\<close>

text \<open>
  A value of Go's \<^verbatim>\<open>interface{}\<close>, as far as these modules build or inspect one.
  \<^verbatim>\<open>json.Unmarshal\<close> stores every JSON number as a finite float64; a finite float64 is a
  rational number and the comparisons the code makes on it (\<^verbatim>\<open><\<close>, \<^verbatim>\<open>>\<close> against 0, 1, 2)
  are exact, so the number is kept as a \<^typ>\<open>rat\<close>.
\<close>

datatype any =
    AnyNil
  | AnyBool bool
  | AnyInt int
  | AnyFloat64 rat
  | AnyString string
  | AnyBoolPtr "bool option"
  | AnySlice "any list"
  | AnyMap "(string \<times> any) list"

text \<open>\<^verbatim>\<open>type OllamaInput struct\<close> (main.go 25-39). A nil pointer, interface or map is \<open>None\<close>.\<close>

record OllamaInput =
  Model :: string
  Prompt :: string
  Suffix :: string
  System :: string
  Template :: string
  Context :: "int list"
  Stream :: "bool option"
  Raw :: bool
  Format :: "any option"
  KeepAlive :: string
  Images :: "string list"
  Options :: "(string \<rightharpoonup> any) option"
  OllamaURL :: string

text \<open>\<^verbatim>\<open>type OllamaOutput struct\<close> (main.go 42-58).\<close>

record OllamaOutput =
  Success :: bool
  Response :: string
  Model :: string
  CreatedAt :: string
  Done :: bool
  Context :: "int list"
  TotalDuration :: int
  LoadDuration :: int
  PromptEvalCount :: int
  PromptEvalDuration :: int
  EvalCount :: int
  EvalDuration :: int
  Error :: string
  ErrorType :: string
  Metadata :: "string \<rightharpoonup> any"

text \<open>\<^verbatim>\<open>type OllamaAPIRequest struct\<close> (main.go 61-74): there is no endpoint field.\<close>

record OllamaAPIRequest =
  Model :: string
  Prompt :: string
  Suffix :: string
  System :: string
  Template :: string
  Context :: "int list"
  Stream :: "bool option"
  Raw :: bool
  Format :: "any option"
  KeepAlive :: string
  Images :: "string list"
  Options :: "(string \<rightharpoonup> any) option"

text \<open>\<^verbatim>\<open>type OllamaAPIResponse struct\<close> (main.go 77-89).\<close>

record OllamaAPIResponse =
  Model :: string
  CreatedAt :: string
  Response :: string
  Done :: bool
  Context :: "int list"
  TotalDuration :: int
  LoadDuration :: int
  PromptEvalCount :: int
  PromptEvalDuration :: int
  EvalCount :: int
  EvalDuration :: int

text \<open>The zero value of \<^verbatim>\<open>OllamaOutput\<close>: what a composite literal leaves in the fields it omits.\<close>

definition OllamaOutput_zero :: OllamaOutput where
  "OllamaOutput_zero =
     \<lparr>OllamaOutput.Success = False, OllamaOutput.Response = [], OllamaOutput.Model = [],
      OllamaOutput.CreatedAt = [], OllamaOutput.Done = False, OllamaOutput.Context = [],
      OllamaOutput.TotalDuration = 0, OllamaOutput.LoadDuration = 0,
      OllamaOutput.PromptEvalCount = 0, OllamaOutput.PromptEvalDuration = 0,
      OllamaOutput.EvalCount = 0, OllamaOutput.EvalDuration = 0,
      OllamaOutput.Error = [], OllamaOutput.ErrorType = [], OllamaOutput.Metadata = Map.empty\<rparr>"

section \<open>The host, the standard library and the effects of a run\<close>

text \<open>
  The four imported host functions (main.go 12-22). \<^verbatim>\<open>float_log\<close> returns nothing; each
  of the other three returns a status, which the host chooses freely from the arguments
  of the call.
\<close>

record host =
  http_request_status :: "string \<Rightarrow> string \<Rightarrow> string \<Rightarrow> string \<Rightarrow> 32 word"
  read_file_status :: "string \<Rightarrow> 32 word"
  write_file_status :: "string \<Rightarrow> string \<Rightarrow> 32 word"

text \<open>
  What the modules take from Go's standard library and do not define themselves:
  \<^verbatim>\<open>encoding/json\<close> at the four types it is used at (\<open>Inl\<close> carries the text of the
  returned error) and the clock read by \<^verbatim>\<open>time.Now().Format(time.RFC3339)\<close>.
\<close>

record stdlib =
  Unmarshal_input :: "string \<Rightarrow> string + OllamaInput"
  Marshal_request :: "OllamaAPIRequest \<Rightarrow> string + string"
  Unmarshal_response :: "string \<Rightarrow> string + OllamaAPIResponse"
  MarshalIndent_output :: "OllamaOutput \<Rightarrow> string + string"
  Unmarshal_object :: "string \<Rightarrow> string + (string \<rightharpoonup> any)"
  Now_RFC3339 :: string

text \<open>One call of a host function, with the byte strings it was given.\<close>

datatype call =
    FloatLog string
  | FloatHttpRequest string string string string
  | FloatReadFile string
  | FloatWriteFile string string

text \<open>
  A computation yields the host calls it made, in order, and its value; the value is
  \<open>None\<close> when the run ended in a Go run-time panic (a wasm trap), after the calls listed.
\<close>

type_synonym 'a io = "call list \<times> 'a option"

definition io_return :: "'a \<Rightarrow> 'a io" where
  "io_return x = ([], Some x)"

definition io_panic :: "'a io" where
  "io_panic = ([], None)"

definition io_bind :: "'a io \<Rightarrow> ('a \<Rightarrow> 'b io) \<Rightarrow> 'b io" where
  "io_bind m f =
     (case m of
        (cs, None) \<Rightarrow> (cs, None)
      | (cs, Some x) \<Rightarrow> (case f x of (cs', r) \<Rightarrow> (cs @ cs', r)))"

definition io_seq :: "unit io \<Rightarrow> 'b io \<Rightarrow> 'b io" where
  "io_seq m k = io_bind m (\<lambda>_. k)"

definition floatLog :: "string \<Rightarrow> unit io" where
  "floatLog message = ([FloatLog message], Some ())"

definition floatHttpRequest :: "host \<Rightarrow> string \<Rightarrow> string \<Rightarrow> string \<Rightarrow> string \<Rightarrow> 32 word io" where
  "floatHttpRequest h url method headers body =
     ([FloatHttpRequest url method headers body], Some (http_request_status h url method headers body))"

definition floatReadFile :: "host \<Rightarrow> string \<Rightarrow> 32 word io" where
  "floatReadFile h path = ([FloatReadFile path], Some (read_file_status h path))"

definition floatWriteFile :: "host \<Rightarrow> string \<Rightarrow> string \<Rightarrow> 32 word io" where
  "floatWriteFile h path data = ([FloatWriteFile path data], Some (write_file_status h path data))"

section \<open>String helpers of the standard library\<close>

text \<open>\<^verbatim>\<open>strings.HasPrefix\<close>, \<^verbatim>\<open>strings.Contains\<close>, \<^verbatim>\<open>strings.TrimRight\<close> and the verb \<^verbatim>\<open>%d\<close>.\<close>

definition HasPrefix :: "string \<Rightarrow> string \<Rightarrow> bool" where
  "HasPrefix s p = (length p \<le> length s \<and> take (length p) s = p)"

primrec Contains :: "string \<Rightarrow> string \<Rightarrow> bool" where
  "Contains [] substr = (substr = [])"
| "Contains (c # s) substr = (HasPrefix (c # s) substr \<or> Contains s substr)"

definition TrimRight :: "string \<Rightarrow> string \<Rightarrow> string" where
  "TrimRight s cutset = rev (dropWhile (\<lambda>c. c \<in> set cutset) (rev s))"

definition digit :: "nat \<Rightarrow> char" where
  "digit d = ''0123456789'' ! d"

fun decimal :: "nat \<Rightarrow> string" where
  "decimal n = (if n < 10 then [digit n] else decimal (n div 10) @ [digit (n mod 10)])"

declare decimal.simps [simp del]

section \<open>src/main.go\<close>

text \<open>\<^verbatim>\<open>logToFloat\<close> (main.go 91-98): an empty message is not sent.\<close>

definition logToFloat :: "string \<Rightarrow> unit io" where
  "logToFloat message = (if length message = 0 then io_return () else floatLog message)"

text \<open>
  \<^verbatim>\<open>writeOutputFile\<close> (main.go 100-121). The result is the returned \<^verbatim>\<open>error\<close>
  (\<open>None\<close> for nil). \<^verbatim>\<open>&jsonData[0]\<close> panics on an empty slice.
\<close>

definition writeOutputFile :: "stdlib \<Rightarrow> host \<Rightarrow> OllamaOutput \<Rightarrow> string option io" where
  "writeOutputFile sl h data =
     (case MarshalIndent_output sl data of
        Inl err \<Rightarrow> io_return (Some (''failed to marshal output: '' @ err))
      | Inr jsonData \<Rightarrow>
          if jsonData = [] then io_panic
          else io_bind (floatWriteFile h ''output.json'' jsonData) (\<lambda>result.
            if result \<noteq> 0 then io_return (Some ''failed to write output file'')
            else io_return None))"

text \<open>\<^verbatim>\<open>readActualOllamaResponse\<close> (main.go 193-202): logs, then always returns an error.\<close>

definition readActualOllamaResponse :: "(string + string) io" where
  "readActualOllamaResponse =
     io_seq (logToFloat ''Processing real Ollama API response'')
       (io_return (Inl ''real Ollama API integration requires Float runtime HTTP response mechanism''))"

text \<open>\<^verbatim>\<open>readHttpResponseFromFloat\<close> (main.go 167-191). \<open>Inl\<close> is the error, \<open>Inr\<close> the reply.\<close>

definition readHttpResponseFromFloat :: "host \<Rightarrow> (string + string) io" where
  "readHttpResponseFromFloat h =
     io_seq (logToFloat ''Reading HTTP response from Float temporary file'')
       (io_bind (floatReadFile h ''/tmp/float_http_response'') (\<lambda>result.
          if result \<noteq> 0
          then io_return (Inl (''failed to read HTTP response file: error code '' @ decimal (unat result)))
          else io_seq (logToFloat ''Successfully read HTTP response from Float'')
                 readActualOllamaResponse))"

text \<open>
  \<^verbatim>\<open>makeHttpRequest\<close> (main.go 123-164). Taking the address of the first byte of
  \<^verbatim>\<open>url\<close>, \<^verbatim>\<open>method\<close> or \<^verbatim>\<open>body\<close> panics when that string is empty; the header
  string is a non-empty constant.
\<close>

definition makeHttpRequest :: "host \<Rightarrow> string \<Rightarrow> string \<Rightarrow> string \<Rightarrow> (string + string) io" where
  "makeHttpRequest h url method body =
     io_seq (logToFloat (''Making HTTP '' @ method @ '' request to '' @ url))
    (io_seq (logToFloat (''Request body: '' @ body))
       (if url = [] \<or> method = [] \<or> body = [] then io_panic
        else io_bind (floatHttpRequest h url method (''Content-Type: application/json'' @ [CHR 0x0D, CHR 0x0A]) body)
          (\<lambda>result.
             if result \<noteq> 0
             then io_seq (logToFloat (''HTTP request failed with status: '' @ decimal (unat result)))
                    (io_return (Inl (''HTTP request failed with status code: '' @ decimal (unat result))))
             else io_bind (readHttpResponseFromFloat h) (\<lambda>r.
                    case r of
                      Inl err \<Rightarrow> io_return (Inl (''failed to read response: '' @ err))
                    | Inr responseBody \<Rightarrow>
                        io_seq (logToFloat (''Received response ('' @ decimal (length responseBody) @ '' bytes)''))
                          (io_return (Inr responseBody))))))"

text \<open>
  The projection of the input onto the request (main.go 280-293; the same twelve
  assignments at part_000 322-335).
\<close>

definition apiRequest_of :: "OllamaInput \<Rightarrow> OllamaAPIRequest" where
  "apiRequest_of input =
     \<lparr>OllamaAPIRequest.Model = OllamaInput.Model input,
      OllamaAPIRequest.Prompt = OllamaInput.Prompt input,
      OllamaAPIRequest.Suffix = OllamaInput.Suffix input,
      OllamaAPIRequest.System = OllamaInput.System input,
      OllamaAPIRequest.Template = OllamaInput.Template input,
      OllamaAPIRequest.Context = OllamaInput.Context input,
      OllamaAPIRequest.Stream = OllamaInput.Stream input,
      OllamaAPIRequest.Raw = OllamaInput.Raw input,
      OllamaAPIRequest.Format = OllamaInput.Format input,
      OllamaAPIRequest.KeepAlive = OllamaInput.KeepAlive input,
      OllamaAPIRequest.Images = OllamaInput.Images input,
      OllamaAPIRequest.Options = OllamaInput.Options input\<rparr>"

text \<open>
  The success output (main.go 349-372), from the input (its URL already trimmed) and the
  decoded reply.
\<close>

definition success_output :: "OllamaInput \<Rightarrow> OllamaAPIResponse \<Rightarrow> OllamaOutput" where
  "success_output input apiResponse =
     \<lparr>OllamaOutput.Success = True,
      OllamaOutput.Response = OllamaAPIResponse.Response apiResponse,
      OllamaOutput.Model = OllamaAPIResponse.Model apiResponse,
      OllamaOutput.CreatedAt = OllamaAPIResponse.CreatedAt apiResponse,
      OllamaOutput.Done = OllamaAPIResponse.Done apiResponse,
      OllamaOutput.Context = OllamaAPIResponse.Context apiResponse,
      OllamaOutput.TotalDuration = OllamaAPIResponse.TotalDuration apiResponse,
      OllamaOutput.LoadDuration = OllamaAPIResponse.LoadDuration apiResponse,
      OllamaOutput.PromptEvalCount = OllamaAPIResponse.PromptEvalCount apiResponse,
      OllamaOutput.PromptEvalDuration = OllamaAPIResponse.PromptEvalDuration apiResponse,
      OllamaOutput.EvalCount = OllamaAPIResponse.EvalCount apiResponse,
      OllamaOutput.EvalDuration = OllamaAPIResponse.EvalDuration apiResponse,
      OllamaOutput.Error = [],
      OllamaOutput.ErrorType = [],
      OllamaOutput.Metadata =
        [''input_prompt_length'' \<mapsto> AnyInt (int (length (OllamaInput.Prompt input))),
         ''response_length'' \<mapsto> AnyInt (int (length (OllamaAPIResponse.Response apiResponse))),
         ''ollama_url'' \<mapsto> AnyString (OllamaURL input),
         ''stream_mode'' \<mapsto> AnyBoolPtr (OllamaInput.Stream input),
         ''has_suffix'' \<mapsto> AnyBool (OllamaInput.Suffix input \<noteq> []),
         ''has_system'' \<mapsto> AnyBool (OllamaInput.System input \<noteq> []),
         ''has_images'' \<mapsto> AnyBool (length (OllamaInput.Images input) > 0),
         ''processing_complete'' \<mapsto> AnyBool True]\<rparr>"

text \<open>
  \<^verbatim>\<open>generate_ollama\<close>, main.go 331-384: what follows once \<^verbatim>\<open>makeHttpRequest\<close> has
  returned \<^verbatim>\<open>responseBody\<close> without error.
\<close>

definition generate_ollama_interpret :: "stdlib \<Rightarrow> host \<Rightarrow> OllamaInput \<Rightarrow> string \<Rightarrow> 32 word io" where
  "generate_ollama_interpret sl h input responseBody =
     (case Unmarshal_response sl responseBody of
        Inl err \<Rightarrow>
          io_seq (logToFloat (''Failed to parse response: '' @ err))
            (io_bind (writeOutputFile sl h
               (OllamaOutput_zero
                  \<lparr>OllamaOutput.Success := False,
                   OllamaOutput.Error := ''Invalid response from Ollama: '' @ err,
                   OllamaOutput.ErrorType := ''RESPONSE_PARSE_ERROR'',
                   OllamaOutput.Metadata :=
                     [''error_stage'' \<mapsto> AnyString ''response_parsing'',
                      ''raw_response'' \<mapsto> AnyString responseBody]\<rparr>))
               (\<lambda>_. io_return 1))
      | Inr apiResponse \<Rightarrow>
          io_bind (writeOutputFile sl h (success_output input apiResponse)) (\<lambda>writeErr.
            case writeErr of
              Some e \<Rightarrow> io_seq (logToFloat (''Failed to write output: '' @ e)) (io_return 1)
            | None \<Rightarrow>
                io_seq (logToFloat ''Ollama generation completed successfully'')
               (io_seq (logToFloat (''Generated response length: ''
                          @ decimal (length (OllamaAPIResponse.Response apiResponse)) @ '' characters''))
                  (io_return 0))))"

text \<open>
  \<^verbatim>\<open>generate_ollama\<close>, main.go 273-329: what follows the three required-field checks.
\<close>

definition generate_ollama_request :: "stdlib \<Rightarrow> host \<Rightarrow> OllamaInput \<Rightarrow> 32 word io" where
  "generate_ollama_request sl h input0 =
     (let input = input0\<lparr>OllamaURL := TrimRight (OllamaURL input0) ''/''\<rparr> in
      io_seq (logToFloat (''Generating with model: '' @ OllamaInput.Model input))
     (io_seq (logToFloat (''Prompt length: '' @ decimal (length (OllamaInput.Prompt input)) @ '' characters''))
       (case Marshal_request sl (apiRequest_of input) of
          Inl err \<Rightarrow>
            io_seq (logToFloat (''Failed to marshal request: '' @ err))
              (io_bind (writeOutputFile sl h
                 (OllamaOutput_zero
                    \<lparr>OllamaOutput.Success := False,
                     OllamaOutput.Error := ''Failed to prepare request: '' @ err,
                     OllamaOutput.ErrorType := ''REQUEST_MARSHAL_ERROR'',
                     OllamaOutput.Metadata := [''error_stage'' \<mapsto> AnyString ''request_preparation'']\<rparr>))
                 (\<lambda>_. io_return 1))
        | Inr requestBody \<Rightarrow>
            (let url = OllamaURL input @ ''/api/generate'' in
             io_seq (logToFloat (''Making request to: '' @ url))
               (io_bind (makeHttpRequest h url ''POST'' requestBody) (\<lambda>r.
                  case r of
                    Inl err \<Rightarrow>
                      io_seq (logToFloat (''HTTP request failed: '' @ err))
                        (io_bind (writeOutputFile sl h
                           (OllamaOutput_zero
                              \<lparr>OllamaOutput.Success := False,
                               OllamaOutput.Error := ''Failed to connect to Ollama: '' @ err,
                               OllamaOutput.ErrorType := ''HTTP_REQUEST_ERROR'',
                               OllamaOutput.Metadata :=
                                 [''error_stage'' \<mapsto> AnyString ''http_request'',
                                  ''ollama_url'' \<mapsto> AnyString url]\<rparr>))
                           (\<lambda>_. io_return 1))
                  | Inr responseBody \<Rightarrow> generate_ollama_interpret sl h input responseBody))))))"

text \<open>
  The output of a failed required-field check (main.go 230-238, 245-253, 260-268).
\<close>

definition missing_field_output :: "string \<Rightarrow> string \<Rightarrow> OllamaOutput" where
  "missing_field_output msg field =
     OllamaOutput_zero
       \<lparr>OllamaOutput.Success := False,
        OllamaOutput.Error := msg,
        OllamaOutput.ErrorType := ''VALIDATION_ERROR'',
        OllamaOutput.Metadata :=
          [''error_stage'' \<mapsto> AnyString ''validation'', ''missing_field'' \<mapsto> AnyString field]\<rparr>"

text \<open>
  \<^verbatim>\<open>generate_ollama\<close> (main.go 205-384). The argument is the content of the
  \<^verbatim>\<open>inputLen\<close> bytes of module memory at \<^verbatim>\<open>inputPtr\<close>. Line 210 slices a
  \<^verbatim>\<open>[1 << 30]byte\<close> array as \<^verbatim>\<open>[0:inputLen]\<close>: for \<^verbatim>\<open>inputLen\<close> above \<open>2^30\<close>
  the slice bound is out of range and the run panics.
\<close>

definition generate_ollama :: "stdlib \<Rightarrow> host \<Rightarrow> string \<Rightarrow> 32 word io" where
  "generate_ollama sl h inputBytes =
     io_seq (logToFloat ''Starting Ollama generation request'')
       (if 2 ^ 30 < length inputBytes then io_panic
        else case Unmarshal_input sl inputBytes of
          Inl err \<Rightarrow>
            io_seq (logToFloat (''Failed to parse input: '' @ err))
              (io_bind (writeOutputFile sl h
                 (OllamaOutput_zero
                    \<lparr>OllamaOutput.Success := False,
                     OllamaOutput.Error := ''Invalid input JSON: '' @ err,
                     OllamaOutput.ErrorType := ''INPUT_PARSE_ERROR'',
                     OllamaOutput.Metadata := [''error_stage'' \<mapsto> AnyString ''input_parsing'']\<rparr>))
                 (\<lambda>_. io_return 1))
        | Inr input \<Rightarrow>
            if OllamaInput.Model input = [] then
              io_seq (logToFloat ''Model is required'')
                (io_bind (writeOutputFile sl h (missing_field_output ''Model field is required'' ''model''))
                   (\<lambda>_. io_return 1))
            else if OllamaInput.Prompt input = [] then
              io_seq (logToFloat ''Prompt is required'')
                (io_bind (writeOutputFile sl h (missing_field_output ''Prompt field is required'' ''prompt''))
                   (\<lambda>_. io_return 1))
            else if OllamaURL input = [] then
              io_seq (logToFloat ''ERROR: ollama_url is required'')
                (io_bind (writeOutputFile sl h
                   (missing_field_output
                      (''ollama_url field is required - please specify the Ollama server URL ''
                         @ ''(e.g., '' @ [CHR 0x27] @ ''http://localhost:11434'' @ [CHR 0x27] @ '')'')
                      ''ollama_url''))
                   (\<lambda>_. io_return 1))
            else generate_ollama_request sl h input)"

section \<open>src/unnamed/part_000, first module\<close>

text \<open>
  \<^verbatim>\<open>logToFloat\<close> and \<^verbatim>\<open>writeOutputFile\<close> (part_000 92-122) are the same text as in
  main.go; the definitions above serve both modules.
\<close>

text \<open>\<^verbatim>\<open>extractModelFromRequest\<close> (part_000 171-180).\<close>

definition extractModelFromRequest :: "stdlib \<Rightarrow> string \<Rightarrow> string" where
  "extractModelFromRequest sl body =
     (case Unmarshal_object sl body of
        Inl err \<Rightarrow> ''unknown''
      | Inr req \<Rightarrow> (case req ''model'' of Some (AnyString model) \<Rightarrow> model | _ \<Rightarrow> ''unknown''))"

text \<open>
  The raw string literal of part_000 153-164, with the model name and the time spliced
  in. Each line break of the literal is a newline followed by the tabs of the source.
\<close>

definition simulatedResponse :: "string \<Rightarrow> string \<Rightarrow> string" where
  \<open>simulatedResponse model now =
     ''{'' @ [CHR 0x0A, CHR 0x09, CHR 0x09]
     @ ''"model": "'' @ model @ ''",'' @ [CHR 0x0A, CHR 0x09, CHR 0x09]
     @ ''"created_at": "'' @ now @ ''",'' @ [CHR 0x0A, CHR 0x09, CHR 0x09]
     @ ''"response": "This is a simulated response. In production, this would be the actual Ollama API response.",''
     @ [CHR 0x0A, CHR 0x09, CHR 0x09]
     @ ''"done": true,'' @ [CHR 0x0A, CHR 0x09, CHR 0x09]
     @ ''"total_duration": 1000000000,'' @ [CHR 0x0A, CHR 0x09, CHR 0x09]
     @ ''"load_duration": 100000000,'' @ [CHR 0x0A, CHR 0x09, CHR 0x09]
     @ ''"prompt_eval_count": 10,'' @ [CHR 0x0A, CHR 0x09, CHR 0x09]
     @ ''"prompt_eval_duration": 200000000,'' @ [CHR 0x0A, CHR 0x09, CHR 0x09]
     @ ''"eval_count": 25,'' @ [CHR 0x0A, CHR 0x09, CHR 0x09]
     @ ''"eval_duration": 700000000'' @ [CHR 0x0A, CHR 0x09]
     @ ''}''\<close>

text \<open>
  \<^verbatim>\<open>makeHttpRequest\<close> (part_000 124-168): the reply is not read from the host but made
  up from the request body and the clock.
\<close>

definition makeHttpRequest_reagent ::
    "stdlib \<Rightarrow> host \<Rightarrow> string \<Rightarrow> string \<Rightarrow> string \<Rightarrow> (string + string) io" where
  "makeHttpRequest_reagent sl h url method body =
     io_seq (logToFloat (''Making HTTP '' @ method @ '' request to '' @ url))
       (if url = [] \<or> method = [] \<or> body = [] then io_panic
        else io_bind (floatHttpRequest h url method (''Content-Type: application/json'' @ [CHR 0x0D, CHR 0x0A]) body)
          (\<lambda>result.
             if result \<noteq> 0
             then io_return (Inl (''HTTP request failed with status code: '' @ decimal (unat result)))
             else io_seq (logToFloat ''HTTP request completed successfully'')
                    (io_return (Inr (simulatedResponse (extractModelFromRequest sl body) (Now_RFC3339 sl))))))"

text \<open>
  \<^verbatim>\<open>validateInput\<close> (part_000 183-226). The result is the returned \<^verbatim>\<open>error\<close>: \<open>None\<close>
  for nil, otherwise the message. A value under \<^verbatim>\<open>temperature\<close> or \<^verbatim>\<open>top_p\<close> that is
  not a float64 fails the type assertion and is not checked.
\<close>

definition validateInput :: "OllamaInput \<Rightarrow> string option" where
  "validateInput input =
     (if OllamaInput.Model input = [] then Some ''model field is required''
      else if OllamaInput.Prompt input = [] then Some ''prompt field is required''
      else if OllamaURL input = [] then Some ''ollama_url field is required''
      else if \<not> HasPrefix (OllamaURL input) ''http://'' \<and> \<not> HasPrefix (OllamaURL input) ''https://''
        then Some ''ollama_url must be a valid HTTP/HTTPS URL''
      else if length (OllamaInput.Prompt input) > 32768
        then Some ''prompt exceeds maximum length of 32768 characters''
      else if OllamaInput.System input \<noteq> [] \<and> length (OllamaInput.System input) > 8192
        then Some ''system message exceeds maximum length of 8192 characters''
      else case OllamaInput.Options input of
        None \<Rightarrow> None
      | Some options \<Rightarrow>
          if (case options ''temperature'' of
                Some (AnyFloat64 tempFloat) \<Rightarrow> tempFloat < 0 \<or> tempFloat > 2
              | _ \<Rightarrow> False)
            then Some ''temperature must be between 0 and 2''
          else if (case options ''top_p'' of
                Some (AnyFloat64 topPFloat) \<Rightarrow> topPFloat < 0 \<or> topPFloat > 1
              | _ \<Rightarrow> False)
            then Some ''top_p must be between 0 and 1''
          else None)"

text \<open>\<^verbatim>\<open>buildMetadata\<close> (part_000 229-250).\<close>

definition buildMetadata :: "OllamaInput \<Rightarrow> nat \<Rightarrow> (string \<rightharpoonup> any)" where
  "buildMetadata input responseLength =
     (let metadata =
            [''input_prompt_length'' \<mapsto> AnyInt (int (length (OllamaInput.Prompt input))),
             ''response_length'' \<mapsto> AnyInt (int responseLength),
             ''ollama_url'' \<mapsto> AnyString (OllamaURL input),
             ''stream_mode'' \<mapsto> AnyBool (OllamaInput.Stream input = Some True),
             ''processing_complete'' \<mapsto> AnyBool True];
          metadata = (if OllamaInput.System input \<noteq> []
                      then metadata(''has_system_message'' \<mapsto> AnyBool True) else metadata);
          metadata = (if length (OllamaInput.Images input) > 0
                      then metadata(''image_count'' \<mapsto> AnyInt (int (length (OllamaInput.Images input))))
                      else metadata);
          metadata = (if length (OllamaInput.Context input) > 0
                      then metadata(''has_context'' \<mapsto> AnyBool True,
                                    ''context_length'' \<mapsto> AnyInt (int (length (OllamaInput.Context input))))
                      else metadata)
      in metadata)"

text \<open>\<^verbatim>\<open>createErrorOutput\<close> (part_000 253-266); \<open>None\<close> is a nil map argument.\<close>

definition createErrorOutput :: "string \<Rightarrow> string \<Rightarrow> (string \<rightharpoonup> any) option \<Rightarrow> OllamaOutput" where
  "createErrorOutput errorMsg errorType metadata0 =
     (let metadata = (case metadata0 of None \<Rightarrow> Map.empty | Some m \<Rightarrow> m);
          metadata = metadata(''processing_complete'' \<mapsto> AnyBool False)
      in OllamaOutput_zero
           \<lparr>OllamaOutput.Success := False,
            OllamaOutput.Error := errorMsg,
            OllamaOutput.ErrorType := errorType,
            OllamaOutput.Done := True,
            OllamaOutput.Metadata := metadata\<rparr>)"

text \<open>
  The metadata of a validation failure (part_000 295-303): the tag is chosen by looking
  for a field name inside the error message.
\<close>

definition validation_metadata :: "string \<Rightarrow> (string \<rightharpoonup> any)" where
  "validation_metadata err =
     (let metadata = [''error_stage'' \<mapsto> AnyString ''validation''] in
      if Contains err ''model'' then metadata(''missing_field'' \<mapsto> AnyString ''model'')
      else if Contains err ''prompt'' then metadata(''missing_field'' \<mapsto> AnyString ''prompt'')
      else if Contains err ''ollama_url'' then metadata(''missing_field'' \<mapsto> AnyString ''ollama_url'')
      else metadata)"

text \<open>The success output (part_000 392-406).\<close>

definition success_output_reagent :: "OllamaInput \<Rightarrow> OllamaAPIResponse \<Rightarrow> OllamaOutput" where
  "success_output_reagent input apiResponse =
     \<lparr>OllamaOutput.Success = True,
      OllamaOutput.Response = OllamaAPIResponse.Response apiResponse,
      OllamaOutput.Model = OllamaAPIResponse.Model apiResponse,
      OllamaOutput.CreatedAt = OllamaAPIResponse.CreatedAt apiResponse,
      OllamaOutput.Done = OllamaAPIResponse.Done apiResponse,
      OllamaOutput.Context = OllamaAPIResponse.Context apiResponse,
      OllamaOutput.TotalDuration = OllamaAPIResponse.TotalDuration apiResponse,
      OllamaOutput.LoadDuration = OllamaAPIResponse.LoadDuration apiResponse,
      OllamaOutput.PromptEvalCount = OllamaAPIResponse.PromptEvalCount apiResponse,
      OllamaOutput.PromptEvalDuration = OllamaAPIResponse.PromptEvalDuration apiResponse,
      OllamaOutput.EvalCount = OllamaAPIResponse.EvalCount apiResponse,
      OllamaOutput.EvalDuration = OllamaAPIResponse.EvalDuration apiResponse,
      OllamaOutput.Error = [],
      OllamaOutput.ErrorType = [],
      OllamaOutput.Metadata = buildMetadata input (length (OllamaAPIResponse.Response apiResponse))\<rparr>"

text \<open>\<^verbatim>\<open>generate_ollama\<close>, part_000 373-418: from the reply on.\<close>

definition generate_ollama_reagent_interpret ::
    "stdlib \<Rightarrow> host \<Rightarrow> OllamaInput \<Rightarrow> string \<Rightarrow> 32 word io" where
  "generate_ollama_reagent_interpret sl h input responseBody =
     (case Unmarshal_response sl responseBody of
        Inl err \<Rightarrow>
          io_seq (logToFloat (''Failed to parse Ollama response: '' @ err))
            (io_bind (writeOutputFile sl h
               (createErrorOutput (''Invalid response from Ollama server: '' @ err)
                  ''RESPONSE_PARSE_ERROR''
                  (Some [''error_stage'' \<mapsto> AnyString ''response_parsing'',
                         ''raw_response'' \<mapsto> AnyString responseBody])))
               (\<lambda>_. io_return 1))
      | Inr apiResponse \<Rightarrow>
          io_seq (logToFloat (''Successfully parsed Ollama response (''
                    @ decimal (length (OllamaAPIResponse.Response apiResponse)) @ '' characters)''))
            (io_bind (writeOutputFile sl h (success_output_reagent input apiResponse)) (\<lambda>writeErr.
               case writeErr of
                 Some e \<Rightarrow> io_seq (logToFloat (''Failed to write output file: '' @ e)) (io_return 1)
               | None \<Rightarrow>
                   io_seq (logToFloat ''Ollama text generation completed successfully'')
                  (io_seq (logToFloat (''Generated ''
                             @ decimal (length (OllamaAPIResponse.Response apiResponse))
                             @ '' characters in response''))
                     (io_return 0)))))"

text \<open>\<^verbatim>\<open>generate_ollama\<close>, part_000 310-371: from a validated input to the reply.\<close>

definition generate_ollama_reagent_request :: "stdlib \<Rightarrow> host \<Rightarrow> OllamaInput \<Rightarrow> 32 word io" where
  "generate_ollama_reagent_request sl h input0 =
     io_seq (logToFloat ''Input validation passed'')
       (let input = input0\<lparr>OllamaURL := TrimRight (OllamaURL input0) ''/''\<rparr>;
            input = (if OllamaInput.Stream input = None
                     then input\<lparr>OllamaInput.Stream := Some False\<rparr> else input)
        in case Marshal_request sl (apiRequest_of input) of
          Inl err \<Rightarrow>
            io_seq (logToFloat (''Failed to marshal request: '' @ err))
              (io_bind (writeOutputFile sl h
                 (createErrorOutput (''Failed to prepare request: '' @ err)
                    ''REQUEST_MARSHAL_ERROR''
                    (Some [''error_stage'' \<mapsto> AnyString ''request_preparation''])))
                 (\<lambda>_. io_return 1))
        | Inr requestBody \<Rightarrow>
            io_seq (logToFloat (''Prepared request body ('' @ decimal (length requestBody) @ '' bytes)''))
              (let url = OllamaURL input @ ''/api/generate'' in
               io_seq (logToFloat (''Making request to Ollama API: '' @ url))
                 (io_bind (makeHttpRequest_reagent sl h url ''POST'' requestBody) (\<lambda>r.
                    case r of
                      Inl err \<Rightarrow>
                        io_seq (logToFloat (''HTTP request failed: '' @ err))
                          (io_bind (writeOutputFile sl h
                             (createErrorOutput (''Failed to connect to Ollama server: '' @ err)
                                ''HTTP_REQUEST_ERROR''
                                (Some [''error_stage'' \<mapsto> AnyString ''http_request'',
                                       ''ollama_url'' \<mapsto> AnyString url])))
                             (\<lambda>_. io_return 1))
                    | Inr responseBody \<Rightarrow>
                        io_seq (logToFloat ''HTTP request completed successfully'')
                          (generate_ollama_reagent_interpret sl h input responseBody)))))"

text \<open>
  \<^verbatim>\<open>generate_ollama\<close> (part_000 269-418), with the same slice of a
  \<^verbatim>\<open>[1 << 30]byte\<close> array at its entry (line 274).
\<close>

definition generate_ollama_reagent :: "stdlib \<Rightarrow> host \<Rightarrow> string \<Rightarrow> 32 word io" where
  "generate_ollama_reagent sl h inputBytes =
     io_seq (logToFloat ''Starting Ollama text generation'')
       (if 2 ^ 30 < length inputBytes then io_panic
        else case Unmarshal_input sl inputBytes of
          Inl err \<Rightarrow>
            io_seq (logToFloat (''Failed to parse input JSON: '' @ err))
              (io_bind (writeOutputFile sl h
                 (createErrorOutput (''Invalid input JSON: '' @ err) ''INPUT_PARSE_ERROR''
                    (Some [''error_stage'' \<mapsto> AnyString ''input_parsing''])))
                 (\<lambda>_. io_return 1))
        | Inr input \<Rightarrow>
            io_seq (logToFloat (''Parsed input for model: '' @ OllamaInput.Model input))
              (case validateInput input of
                 Some err \<Rightarrow>
                   io_seq (logToFloat (''Input validation failed: '' @ err))
                     (io_bind (writeOutputFile sl h
                        (createErrorOutput err ''VALIDATION_ERROR'' (Some (validation_metadata err))))
                        (\<lambda>_. io_return 1))
               | None \<Rightarrow> generate_ollama_reagent_request sl h input))"

section \<open>Observing a run\<close>

fun is_write :: "call \<Rightarrow> bool" where
  "is_write (FloatWriteFile path data) = True"
| "is_write c = False"

fun is_http_request :: "call \<Rightarrow> bool" where
  "is_http_request (FloatHttpRequest url method headers body) = True"
| "is_http_request c = False"

text \<open>
  A run with host calls \<open>cs\<close> emitted \<open>out\<close>: its only write call wrote the encoding of
  \<open>out\<close> to \<^verbatim>\<open>output.json\<close>.
\<close>

definition emitted :: "stdlib \<Rightarrow> call list \<Rightarrow> OllamaOutput \<Rightarrow> bool" where
  "emitted sl cs out =
     (case MarshalIndent_output sl out of
        Inl err \<Rightarrow> False
      | Inr jsonData \<Rightarrow> filter is_write cs = [FloatWriteFile ''output.json'' jsonData])"

text \<open>
  Two facts of \<^verbatim>\<open>encoding/json\<close> that the parameters leave open. An \<^verbatim>\<open>OllamaOutput\<close>
  holds only booleans, integers, strings and maps of those, which the encoder always
  accepts; and whatever the encoder returns without error is a JSON text, which is never
  empty.
\<close>

definition output_encoder_total :: "stdlib \<Rightarrow> bool" where
  "output_encoder_total sl =
     (\<forall>out. \<exists>jsonData. MarshalIndent_output sl out = Inr jsonData \<and> jsonData \<noteq> [])"

definition request_encoder_nonempty :: "stdlib \<Rightarrow> bool" where
  "request_encoder_nonempty sl = (\<forall>req. Marshal_request sl req \<noteq> Inr [])"

text \<open>
  A run in which a write call returned a nonzero status returns 1: the property of a
  computation that C2 is about.
\<close>

definition failed_write_returns_1 :: "host \<Rightarrow> 32 word io \<Rightarrow> bool" where
  "failed_write_returns_1 h m =
     (\<forall>path data. FloatWriteFile path data \<in> set (fst m) \<longrightarrow>
        write_file_status h path data \<noteq> 0 \<longrightarrow> snd m = Some 1)"

text \<open>
  The input as part_000 312-319 leave it before the request is built: the endpoint
  trimmed and a missing \<^verbatim>\<open>stream\<close> set to false.
\<close>

definition prepared_input :: "OllamaInput \<Rightarrow> OllamaInput" where
  "prepared_input input0 =
     (let input = input0\<lparr>OllamaURL := TrimRight (OllamaURL input0) ''/''\<rparr>
      in if OllamaInput.Stream input = None then input\<lparr>OllamaInput.Stream := Some False\<rparr> else input)"

text \<open>The first required field, in the order model, prompt, ollama_url, that is empty.\<close>

definition first_missing_field :: "OllamaInput \<Rightarrow> string" where
  "first_missing_field input =
     (if OllamaInput.Model input = [] then ''model''
      else if OllamaInput.Prompt input = [] then ''prompt''
      else ''ollama_url'')"

section \<open>Validation as the first violated check of an ordered list\<close>

text \<open>
  A check is a violation predicate with the message reported for it. The first violation
  of a list of checks is the message of the earliest check whose predicate holds.
\<close>

type_synonym check = "(OllamaInput \<Rightarrow> bool) \<times> string"

primrec first_violation :: "check list \<Rightarrow> OllamaInput \<Rightarrow> string option" where
  "first_violation [] input = None"
| "first_violation (c # cs) input = (if fst c input then Some (snd c) else first_violation cs input)"

definition model_missing :: check where
  "model_missing = (\<lambda>input. OllamaInput.Model input = [], ''model field is required'')"

definition prompt_missing :: check where
  "prompt_missing = (\<lambda>input. OllamaInput.Prompt input = [], ''prompt field is required'')"

definition url_missing :: check where
  "url_missing = (\<lambda>input. OllamaURL input = [], ''ollama_url field is required'')"

definition url_scheme :: check where
  "url_scheme =
     (\<lambda>input. \<not> HasPrefix (OllamaURL input) ''http://'' \<and> \<not> HasPrefix (OllamaURL input) ''https://'',
      ''ollama_url must be a valid HTTP/HTTPS URL'')"

definition prompt_too_long :: check where
  "prompt_too_long =
     (\<lambda>input. length (OllamaInput.Prompt input) > 32768,
      ''prompt exceeds maximum length of 32768 characters'')"

definition system_too_long :: check where
  "system_too_long =
     (\<lambda>input. length (OllamaInput.System input) > 8192,
      ''system message exceeds maximum length of 8192 characters'')"

definition temperature_range :: check where
  "temperature_range =
     (\<lambda>input. case OllamaInput.Options input of
                 None \<Rightarrow> False
               | Some options \<Rightarrow>
                   (case options ''temperature'' of
                      Some (AnyFloat64 t) \<Rightarrow> t < 0 \<or> t > 2
                    | _ \<Rightarrow> False),
      ''temperature must be between 0 and 2'')"

definition top_p_range :: check where
  "top_p_range =
     (\<lambda>input. case OllamaInput.Options input of
                 None \<Rightarrow> False
               | Some options \<Rightarrow>
                   (case options ''top_p'' of
                      Some (AnyFloat64 p) \<Rightarrow> p < 0 \<or> p > 1
                    | _ \<Rightarrow> False),
      ''top_p must be between 0 and 1'')"

text \<open>The checks in the order \<^verbatim>\<open>validateInput\<close> makes them.\<close>

definition code_order :: "check list" where
  "code_order =
     [model_missing, prompt_missing, url_missing, url_scheme, prompt_too_long,
      system_too_long, temperature_range, top_p_range]"

text \<open>
  The same checks in the order the specification gives: field by field, target id, then
  payload, then endpoint, then tuning parameters (the system message, which that order
  does not name, is put before the tuning parameters).
\<close>

definition spec_order :: "check list" where
  "spec_order =
     [model_missing, prompt_missing, prompt_too_long, url_missing, url_scheme,
      system_too_long, temperature_range, top_p_range]"

section \<open>Test doubles\<close>

text \<open>
  A host that answers every call of a kind with one fixed status, and a standard library
  that decodes one fixed buffer to one fixed input, decodes every reply to one fixed
  result, and encodes to small JSON texts.
\<close>

definition mock_host :: "32 word \<Rightarrow> 32 word \<Rightarrow> 32 word \<Rightarrow> host" where
  "mock_host http_status read_status write_status =
     \<lparr>http_request_status = (\<lambda>url method headers body. http_status),
      read_file_status = (\<lambda>path. read_status),
      write_file_status = (\<lambda>path data. write_status)\<rparr>"

definition mock_stdlib :: "string \<Rightarrow> OllamaInput \<Rightarrow> (string + OllamaAPIResponse) \<Rightarrow> stdlib" where
  \<open>mock_stdlib inputBytes input response =
     \<lparr>Unmarshal_input = (\<lambda>b. if b = inputBytes then Inr input else Inl ''unexpected end of JSON input''),
      Marshal_request = (\<lambda>req. Inr (''{"model":"'' @ OllamaAPIRequest.Model req
                                      @ ''","prompt":"'' @ OllamaAPIRequest.Prompt req @ ''"}'')),
      Unmarshal_response = (\<lambda>s. response),
      MarshalIndent_output =
        (\<lambda>out. Inr (''{"success": '' @ (if Success out then ''true'' else ''false'')
                     @ '', "response": "'' @ OllamaOutput.Response out
                     @ ''", "error": "'' @ Error out
                     @ ''", "error_type": "'' @ ErrorType out
                     @ ''", "missing_field": "''
                     @ (case Metadata out ''missing_field'' of Some (AnyString field) \<Rightarrow> field | _ \<Rightarrow> [])
                     @ ''"}'')),
      Unmarshal_object = (\<lambda>s. Inr [''model'' \<mapsto> AnyString (OllamaInput.Model input)]),
      Now_RFC3339 = ''2024-01-15T10:30:00Z''\<rparr>\<close>

definition OllamaInput_zero :: OllamaInput where
  "OllamaInput_zero =
     \<lparr>OllamaInput.Model = [], OllamaInput.Prompt = [], OllamaInput.Suffix = [],
      OllamaInput.System = [], OllamaInput.Template = [], OllamaInput.Context = [],
      OllamaInput.Stream = None, OllamaInput.Raw = False, OllamaInput.Format = None,
      OllamaInput.KeepAlive = [], OllamaInput.Images = [], OllamaInput.Options = None,
      OllamaURL = []\<rparr>"

definition OllamaAPIResponse_zero :: OllamaAPIResponse where
  "OllamaAPIResponse_zero =
     \<lparr>OllamaAPIResponse.Model = [], OllamaAPIResponse.CreatedAt = [],
      OllamaAPIResponse.Response = [], OllamaAPIResponse.Done = False,
      OllamaAPIResponse.Context = [], OllamaAPIResponse.TotalDuration = 0,
      OllamaAPIResponse.LoadDuration = 0, OllamaAPIResponse.PromptEvalCount = 0,
      OllamaAPIResponse.PromptEvalDuration = 0, OllamaAPIResponse.EvalCount = 0,
      OllamaAPIResponse.EvalDuration = 0\<rparr>"

text \<open>
  Scenario A of the specification, in the field names of the code: the input
  \<^verbatim>\<open>{model: "m1", prompt: "hello", ollama_url: "http://h/"}\<close> and the decoded reply
  \<^verbatim>\<open>{"response":"hi","done":true}\<close>.
\<close>

definition scenarioA_bytes :: string where
  \<open>scenarioA_bytes = ''{"model":"m1","prompt":"hello","ollama_url":"http://h/"}''\<close>

definition scenarioA_input :: OllamaInput where
  "scenarioA_input =
     OllamaInput_zero\<lparr>OllamaInput.Model := ''m1'', OllamaInput.Prompt := ''hello'', OllamaURL := ''http://h/''\<rparr>"

definition scenarioA_reply :: OllamaAPIResponse where
  "scenarioA_reply =
     OllamaAPIResponse_zero\<lparr>OllamaAPIResponse.Response := ''hi'', OllamaAPIResponse.Done := True\<rparr>"

text \<open>
  Scenario B: the same input without its endpoint, which decodes with an empty
  \<^verbatim>\<open>ollama_url\<close>.
\<close>

definition scenarioB_bytes :: string where
  \<open>scenarioB_bytes = ''{"model":"m1","prompt":"hello"}''\<close>

definition scenarioB_input :: OllamaInput where
  "scenarioB_input = OllamaInput_zero\<lparr>OllamaInput.Model := ''m1'', OllamaInput.Prompt := ''hello''\<rparr>"

text \<open>
  Further test inputs: an endpoint with the scheme \<^verbatim>\<open>ftp\<close>, the same without a model,
  and a prompt one byte over the bound of 32768.
\<close>

definition ftp_bytes :: string where
  \<open>ftp_bytes = ''{"model":"m1","prompt":"hello","ollama_url":"ftp://h"}''\<close>

definition ftp_input :: OllamaInput where
  "ftp_input = scenarioA_input\<lparr>OllamaURL := ''ftp://h''\<rparr>"

definition ftp_no_model_bytes :: string where
  \<open>ftp_no_model_bytes = ''{"prompt":"hello","ollama_url":"ftp://h"}''\<close>

definition ftp_no_model_input :: OllamaInput where
  "ftp_no_model_input = ftp_input\<lparr>OllamaInput.Model := []\<rparr>"

definition long_prompt :: string where
  "long_prompt = replicate 32769 (CHR ''a'')"

definition long_prompt_bytes :: string where
  \<open>long_prompt_bytes = ''{"model":"m1","prompt":"'' @ long_prompt @ ''","ollama_url":"http://h/"}''\<close>

section \<open>Lemmas about the effects\<close>

text \<open>Logging makes no write and no request, and never stops a run.\<close>

lemma logToFloat_writes: "filter is_write (fst (logToFloat m)) = []"
  by (simp add: logToFloat_def io_return_def floatLog_def)

lemma logToFloat_https: "filter is_http_request (fst (logToFloat m)) = []"
  by (simp add: logToFloat_def io_return_def floatLog_def)

lemma io_seq_log: "io_seq (logToFloat m) k = (fst (logToFloat m) @ fst k, snd k)"
  by (cases k) (simp add: io_seq_def io_bind_def logToFloat_def io_return_def floatLog_def)

text \<open>
  \<^verbatim>\<open>writeOutputFile\<close> on an output that encodes to a non-empty text makes exactly one
  write call; the exit \<^verbatim>\<open>writeOutputFile(output); return 1\<close> of every failure path
  therefore makes that one call and returns 1.
\<close>

lemma writeOutputFile_encoded:
  assumes "MarshalIndent_output sl out = Inr jsonData" and "jsonData \<noteq> []"
  shows "writeOutputFile sl h out =
           ([FloatWriteFile ''output.json'' jsonData],
            Some (if write_file_status h ''output.json'' jsonData \<noteq> 0
                  then Some ''failed to write output file'' else None))"
  using assms by (simp add: writeOutputFile_def io_bind_def floatWriteFile_def io_return_def)

lemma error_exit:
  assumes "MarshalIndent_output sl out = Inr jsonData" and "jsonData \<noteq> []"
  shows "io_bind (writeOutputFile sl h out) (\<lambda>_. io_return (1::32 word)) =
           ([FloatWriteFile ''output.json'' jsonData], Some 1)"
  by (simp add: writeOutputFile_encoded [OF assms] io_bind_def io_return_def)

lemma error_exit_writes_once:
  assumes "output_encoder_total sl"
  shows "\<exists>jsonData. io_bind (writeOutputFile sl h out) (\<lambda>_. io_return (1::32 word)) =
           ([FloatWriteFile ''output.json'' jsonData], Some 1)"
proof -
  from assms obtain jsonData where "MarshalIndent_output sl out = Inr jsonData" "jsonData \<noteq> []"
    unfolding output_encoder_total_def by blast
  then show ?thesis using error_exit by blast
qed

lemma error_exit_written:
  assumes "output_encoder_total sl"
  shows "\<exists>jsonData. filter is_write (fst (io_bind (writeOutputFile sl h out) (\<lambda>_. io_return (1::32 word)))) =
           [FloatWriteFile ''output.json'' jsonData]"
  using error_exit_writes_once [OF assms, of h out] by auto

lemma error_exit_status:
  assumes "output_encoder_total sl"
  shows "snd (io_bind (writeOutputFile sl h out) (\<lambda>_. io_return (1::32 word))) = Some 1"
  using error_exit_writes_once [OF assms, of h out] by auto

lemma error_exit_no_http:
  "filter is_http_request (fst (io_bind (writeOutputFile sl h out) (\<lambda>_. io_return (1::32 word)))) = []"
  by (simp add: writeOutputFile_def io_bind_def io_return_def io_panic_def floatWriteFile_def
      split: sum.splits)

text \<open>
  In main.go \<^verbatim>\<open>makeHttpRequest\<close> returns an error on every path: the send fails, or the
  read fails, or \<^verbatim>\<open>readActualOllamaResponse\<close> returns its fixed error.
\<close>

lemma makeHttpRequest_fails:
  assumes "url \<noteq> []" "method \<noteq> []" "body \<noteq> []"
  shows "\<exists>cs err. makeHttpRequest h url method body = (cs, Some (Inl err))
           \<and> filter is_write cs = []
           \<and> filter is_http_request cs =
               [FloatHttpRequest url method (''Content-Type: application/json'' @ [CHR 0x0D, CHR 0x0A]) body]"
  using assms
  by (simp add: makeHttpRequest_def io_seq_log readHttpResponseFromFloat_def readActualOllamaResponse_def
      io_bind_def floatHttpRequest_def floatReadFile_def io_return_def logToFloat_writes logToFloat_https
      split: prod.splits)

section \<open>C1: one write on every path\<close>

lemma interpret_writes_once:
  assumes "output_encoder_total sl"
  shows "\<exists>jsonData status.
           filter is_write (fst (generate_ollama_interpret sl h input responseBody)) =
             [FloatWriteFile ''output.json'' jsonData]
         \<and> snd (generate_ollama_interpret sl h input responseBody) = Some status"
proof (cases "Unmarshal_response sl responseBody")
  case (Inl err)
  then show ?thesis
    by (simp add: generate_ollama_interpret_def io_seq_log logToFloat_writes
        error_exit_status [OF assms] error_exit_written [OF assms])
next
  case (Inr apiResponse)
  from assms obtain jsonData where
    "MarshalIndent_output sl (success_output input apiResponse) = Inr jsonData" "jsonData \<noteq> []"
    unfolding output_encoder_total_def by blast
  with Inr show ?thesis
    by (simp add: generate_ollama_interpret_def writeOutputFile_encoded io_bind_def io_seq_log
        logToFloat_writes io_return_def)
qed

lemma request_writes_once:
  assumes "output_encoder_total sl" and "request_encoder_nonempty sl"
  shows "\<exists>jsonData status.
           filter is_write (fst (generate_ollama_request sl h input)) =
             [FloatWriteFile ''output.json'' jsonData]
         \<and> snd (generate_ollama_request sl h input) = Some status"
proof (cases "Marshal_request sl (apiRequest_of (input\<lparr>OllamaURL := TrimRight (OllamaURL input) ''/''\<rparr>))")
  case (Inl err)
  then show ?thesis
    by (simp add: generate_ollama_request_def Let_def io_seq_log logToFloat_writes
        error_exit_status [OF assms(1)] error_exit_written [OF assms(1)])
next
  case (Inr requestBody)
  let ?url = "TrimRight (OllamaURL input) ''/'' @ ''/api/generate''"
  from Inr assms(2) have "requestBody \<noteq> []"
    unfolding request_encoder_nonempty_def by metis
  then obtain cs err where http: "makeHttpRequest h ?url ''POST'' requestBody = (cs, Some (Inl err))"
    and cs: "filter is_write cs = []"
    using makeHttpRequest_fails [of ?url "''POST''" requestBody h] by auto
  obtain jsonData where "io_bind (writeOutputFile sl h
      (OllamaOutput_zero
         \<lparr>OllamaOutput.Success := False,
          OllamaOutput.Error := ''Failed to connect to Ollama: '' @ err,
          OllamaOutput.ErrorType := ''HTTP_REQUEST_ERROR'',
          OllamaOutput.Metadata :=
            [''error_stage'' \<mapsto> AnyString ''http_request'',
             ''ollama_url'' \<mapsto> AnyString ?url]\<rparr>))
      (\<lambda>_. io_return 1) = ([FloatWriteFile ''output.json'' jsonData], Some (1::32 word))"
    using error_exit_writes_once [OF assms(1)] by blast
  with Inr http cs show ?thesis
    by (simp add: generate_ollama_request_def Let_def io_seq_log logToFloat_writes io_bind_def)
qed

text \<open>
  C1, as amended. For every input buffer of at most \<open>2^30\<close> bytes and every choice of
  statuses by the host, \<^verbatim>\<open>generate_ollama\<close> of main.go returns a status, and the host
  calls it made contain exactly one write call, to \<^verbatim>\<open>output.json\<close>. The JSON encoder is
  taken to behave as \<^verbatim>\<open>encoding/json\<close> does on these types: it accepts every
  \<^verbatim>\<open>OllamaOutput\<close> and never returns an empty text.
\<close>

theorem generate_ollama_writes_once:
  assumes "output_encoder_total sl" and "request_encoder_nonempty sl"
    and "length inputBytes \<le> 2 ^ 30"
  shows "\<exists>jsonData status.
           filter is_write (fst (generate_ollama sl h inputBytes)) =
             [FloatWriteFile ''output.json'' jsonData]
         \<and> snd (generate_ollama sl h inputBytes) = Some status"
proof (cases "Unmarshal_input sl inputBytes")
  case (Inl err)
  with assms(3) show ?thesis
    by (simp add: generate_ollama_def io_seq_log logToFloat_writes
        error_exit_status [OF assms(1)] error_exit_written [OF assms(1)])
next
  case (Inr input)
  show ?thesis
  proof (cases "OllamaInput.Model input = [] \<or> OllamaInput.Prompt input = [] \<or> OllamaURL input = []")
    case True
    with Inr assms(3) show ?thesis
      by (auto simp add: generate_ollama_def io_seq_log logToFloat_writes
          error_exit_status [OF assms(1)] error_exit_written [OF assms(1)])
  next
    case False
    with Inr assms(3) request_writes_once [OF assms(1,2), of h input] show ?thesis
      by (simp add: generate_ollama_def io_seq_log logToFloat_writes)
  qed
qed

theorem generate_ollama_writes_once_witness:
  "output_encoder_total (mock_stdlib scenarioA_bytes scenarioA_input (Inr scenarioA_reply))
   \<and> request_encoder_nonempty (mock_stdlib scenarioA_bytes scenarioA_input (Inr scenarioA_reply))
   \<and> length scenarioA_bytes \<le> 2 ^ 30
   \<and> (\<exists>jsonData status.
         filter is_write (fst (generate_ollama (mock_stdlib scenarioA_bytes scenarioA_input (Inr scenarioA_reply))
                                 (mock_host 0 0 0) scenarioA_bytes)) =
           [FloatWriteFile ''output.json'' jsonData]
         \<and> snd (generate_ollama (mock_stdlib scenarioA_bytes scenarioA_input (Inr scenarioA_reply))
                   (mock_host 0 0 0) scenarioA_bytes) = Some status)"
proof -
  let ?sl = "mock_stdlib scenarioA_bytes scenarioA_input (Inr scenarioA_reply)"
  have total: "output_encoder_total ?sl"
    by (simp add: output_encoder_total_def mock_stdlib_def)
  have nonempty: "request_encoder_nonempty ?sl"
    by (simp add: request_encoder_nonempty_def mock_stdlib_def)
  have len: "length scenarioA_bytes \<le> 2 ^ 30"
    by (simp add: scenarioA_bytes_def)
  from generate_ollama_writes_once [OF total nonempty len, of "mock_host 0 0 0"] total nonempty len
  show ?thesis by blast
qed

text \<open>
  C1 as stated (every input buffer) fails: on a buffer of \<open>2^30 + 1\<close> bytes the run logs
  its first message and panics at the slice of line 210, with no write call and no status.
\<close>

theorem generate_ollama_oversized_buffer:
  "generate_ollama (mock_stdlib scenarioA_bytes scenarioA_input (Inr scenarioA_reply)) (mock_host 0 0 0)
     (replicate (2 ^ 30 + 1) (CHR ''a''))
   = ([FloatLog ''Starting Ollama generation request''], None)"
  by (simp add: generate_ollama_def io_seq_def io_bind_def logToFloat_def floatLog_def io_panic_def)

section \<open>C3: the request built from a validated input\<close>

lemma io_bind_Some:
  "io_bind (cs, Some x) f = (cs @ fst (f x), snd (f x))"
  by (simp add: io_bind_def split: prod.splits)

lemma emitted_same_writes:
  "filter is_write cs = filter is_write cs' \<Longrightarrow> emitted sl cs out = emitted sl cs' out"
  by (cases "MarshalIndent_output sl out") (simp_all add: emitted_def)

lemma TrimRight_no_trailing:
  "TrimRight s cutset = t @ [c] \<Longrightarrow> c \<notin> set cutset"
proof -
  assume "TrimRight s cutset = t @ [c]"
  then have "dropWhile (\<lambda>c. c \<in> set cutset) (rev s) = c # rev t"
    by (metis TrimRight_def rev.simps(2) rev_swap)
  then show ?thesis
    by (metis hd_dropWhile list.distinct(1) list.sel(1))
qed

lemma request_http_calls:
  assumes "Marshal_request sl (apiRequest_of input) = Inr requestBody" and "requestBody \<noteq> []"
  shows "filter is_http_request (fst (generate_ollama_request sl h input)) =
           [FloatHttpRequest (TrimRight (OllamaURL input) ''/'' @ ''/api/generate'') ''POST''
              (''Content-Type: application/json'' @ [CHR 0x0D, CHR 0x0A]) requestBody]"
proof -
  let ?url = "TrimRight (OllamaURL input) ''/'' @ ''/api/generate''"
  have req: "apiRequest_of (input\<lparr>OllamaURL := TrimRight (OllamaURL input) ''/''\<rparr>) = apiRequest_of input"
    by (simp add: apiRequest_of_def)
  obtain cs err where http: "makeHttpRequest h ?url ''POST'' requestBody = (cs, Some (Inl err))"
    and cs: "filter is_http_request cs =
      [FloatHttpRequest ?url ''POST'' (''Content-Type: application/json'' @ [CHR 0x0D, CHR 0x0A]) requestBody]"
    using makeHttpRequest_fails [of ?url "''POST''" requestBody h] assms(2) by auto
  show ?thesis
    using assms(1) http cs
    by (simp add: generate_ollama_request_def Let_def req io_seq_log logToFloat_https
        io_bind_Some error_exit_no_http)
qed

text \<open>
  C3. For every input that passes the three required-field checks of main.go and whose
  request encodes, \<^verbatim>\<open>generate_ollama\<close> makes exactly one request call: to the input's
  \<^verbatim>\<open>ollama_url\<close> with all trailing \<^verbatim>\<open>/\<close> removed, followed by \<^verbatim>\<open>/api/generate\<close>,
  with method POST and with the encoding of the request as body. That request carries the
  model and the prompt of the input unchanged; it is the same whatever the input's
  \<^verbatim>\<open>ollama_url\<close> is, so the endpoint is no part of the body; and the trimmed endpoint
  does not end in \<^verbatim>\<open>/\<close>.
\<close>

theorem request_built_from_input:
  assumes "length inputBytes \<le> 2 ^ 30"
    and "Unmarshal_input sl inputBytes = Inr input"
    and "OllamaInput.Model input \<noteq> []" and "OllamaInput.Prompt input \<noteq> []" and "OllamaURL input \<noteq> []"
    and "Marshal_request sl (apiRequest_of input) = Inr requestBody" and "requestBody \<noteq> []"
  shows "filter is_http_request (fst (generate_ollama sl h inputBytes)) =
           [FloatHttpRequest (TrimRight (OllamaURL input) ''/'' @ ''/api/generate'') ''POST''
              (''Content-Type: application/json'' @ [CHR 0x0D, CHR 0x0A]) requestBody]
       \<and> OllamaAPIRequest.Model (apiRequest_of input) = OllamaInput.Model input
       \<and> OllamaAPIRequest.Prompt (apiRequest_of input) = OllamaInput.Prompt input
       \<and> (\<forall>url. apiRequest_of (input\<lparr>OllamaURL := url\<rparr>) = apiRequest_of input)
       \<and> (\<forall>t. TrimRight (OllamaURL input) ''/'' \<noteq> t @ ''/'')"
proof -
  have calls: "filter is_http_request (fst (generate_ollama sl h inputBytes)) =
      filter is_http_request (fst (generate_ollama_request sl h input))"
    using assms(1-5) by (simp add: generate_ollama_def io_seq_log logToFloat_https)
  have trim: "TrimRight (OllamaURL input) ''/'' \<noteq> t @ ''/''" for t
    using TrimRight_no_trailing [of "OllamaURL input" "''/''" t "CHR ''/''"] by auto
  show ?thesis
    using calls request_http_calls [OF assms(6,7), of h] trim
    by (simp add: apiRequest_of_def)
qed

theorem request_built_from_input_witness:
  \<open>length scenarioA_bytes \<le> 2 ^ 30
   \<and> Unmarshal_input (mock_stdlib scenarioA_bytes scenarioA_input (Inr scenarioA_reply)) scenarioA_bytes
       = Inr scenarioA_input
   \<and> OllamaInput.Model scenarioA_input \<noteq> [] \<and> OllamaInput.Prompt scenarioA_input \<noteq> []
   \<and> OllamaURL scenarioA_input \<noteq> []
   \<and> Marshal_request (mock_stdlib scenarioA_bytes scenarioA_input (Inr scenarioA_reply))
         (apiRequest_of scenarioA_input) = Inr ''{"model":"m1","prompt":"hello"}''
   \<and> filter is_http_request
         (fst (generate_ollama (mock_stdlib scenarioA_bytes scenarioA_input (Inr scenarioA_reply))
                 (mock_host 0 0 0) scenarioA_bytes))
       = [FloatHttpRequest ''http://h/api/generate'' ''POST''
            (''Content-Type: application/json'' @ [CHR 0x0D, CHR 0x0A]) ''{"model":"m1","prompt":"hello"}'']
   \<and> OllamaAPIRequest.Model (apiRequest_of scenarioA_input) = ''m1''
   \<and> OllamaAPIRequest.Prompt (apiRequest_of scenarioA_input) = ''hello''\<close>
proof -
  let ?sl = "mock_stdlib scenarioA_bytes scenarioA_input (Inr scenarioA_reply)"
  have len: "length scenarioA_bytes \<le> 2 ^ 30"
    by (simp add: scenarioA_bytes_def)
  have dec: "Unmarshal_input ?sl scenarioA_bytes = Inr scenarioA_input"
    by (simp add: mock_stdlib_def)
  have m: "OllamaInput.Model scenarioA_input \<noteq> []" and p: "OllamaInput.Prompt scenarioA_input \<noteq> []"
    and u: "OllamaURL scenarioA_input \<noteq> []"
    by (simp_all add: scenarioA_input_def)
  have enc: \<open>Marshal_request ?sl (apiRequest_of scenarioA_input) = Inr ''{"model":"m1","prompt":"hello"}''\<close>
    by (simp add: mock_stdlib_def apiRequest_of_def scenarioA_input_def)
  have ne: \<open>''{"model":"m1","prompt":"hello"}'' \<noteq> []\<close> by simp
  have trim: "TrimRight (OllamaURL scenarioA_input) ''/'' = ''http://h''"
    by (simp add: TrimRight_def scenarioA_input_def)
  have fields: "OllamaAPIRequest.Model (apiRequest_of scenarioA_input) = ''m1''"
      "OllamaAPIRequest.Prompt (apiRequest_of scenarioA_input) = ''hello''"
    by (simp_all add: apiRequest_of_def scenarioA_input_def)
  have \<open>filter is_http_request (fst (generate_ollama ?sl (mock_host 0 0 0) scenarioA_bytes))
        = [FloatHttpRequest (''http://h'' @ ''/api/generate'') ''POST''
             (''Content-Type: application/json'' @ [CHR 0x0D, CHR 0x0A]) ''{"model":"m1","prompt":"hello"}'']\<close>
    using request_built_from_input [OF len dec m p u enc ne, of "mock_host 0 0 0"]
    unfolding trim by (rule conjunct1)
  then have calls: \<open>filter is_http_request (fst (generate_ollama ?sl (mock_host 0 0 0) scenarioA_bytes))
        = [FloatHttpRequest ''http://h/api/generate'' ''POST''
             (''Content-Type: application/json'' @ [CHR 0x0D, CHR 0x0A]) ''{"model":"m1","prompt":"hello"}'']\<close>
    by simp
  show ?thesis
    by (intro conjI len dec m p u enc calls fields)
qed

section \<open>C8: a failed send or a failed read\<close>

lemma request_http_error:
  assumes "output_encoder_total sl"
    and "Marshal_request sl (apiRequest_of input) = Inr requestBody" and "requestBody \<noteq> []"
  shows "\<exists>err. emitted sl (fst (generate_ollama_request sl h input))
                 (OllamaOutput_zero
                    \<lparr>OllamaOutput.Success := False,
                     OllamaOutput.Error := ''Failed to connect to Ollama: '' @ err,
                     OllamaOutput.ErrorType := ''HTTP_REQUEST_ERROR'',
                     OllamaOutput.Metadata :=
                       [''error_stage'' \<mapsto> AnyString ''http_request'',
                        ''ollama_url'' \<mapsto> AnyString (TrimRight (OllamaURL input) ''/'' @ ''/api/generate'')]\<rparr>)
             \<and> snd (generate_ollama_request sl h input) = Some 1"
proof -
  let ?url = "TrimRight (OllamaURL input) ''/'' @ ''/api/generate''"
  have req: "apiRequest_of (input\<lparr>OllamaURL := TrimRight (OllamaURL input) ''/''\<rparr>) = apiRequest_of input"
    by (simp add: apiRequest_of_def)
  obtain cs err where http: "makeHttpRequest h ?url ''POST'' requestBody = (cs, Some (Inl err))"
    and cs: "filter is_write cs = []"
    using makeHttpRequest_fails [of ?url "''POST''" requestBody h] assms(3) by auto
  let ?out = "OllamaOutput_zero
      \<lparr>OllamaOutput.Success := False,
       OllamaOutput.Error := ''Failed to connect to Ollama: '' @ err,
       OllamaOutput.ErrorType := ''HTTP_REQUEST_ERROR'',
       OllamaOutput.Metadata :=
         [''error_stage'' \<mapsto> AnyString ''http_request'', ''ollama_url'' \<mapsto> AnyString ?url]\<rparr>"
  from assms(1) obtain jsonData where enc: "MarshalIndent_output sl ?out = Inr jsonData" "jsonData \<noteq> []"
    unfolding output_encoder_total_def by blast
  have exit: "io_bind (writeOutputFile sl h ?out) (\<lambda>_. io_return (1::32 word)) =
      ([FloatWriteFile ''output.json'' jsonData], Some 1)"
    by (rule error_exit [OF enc])
  have "emitted sl (fst (generate_ollama_request sl h input)) ?out
        \<and> snd (generate_ollama_request sl h input) = Some 1"
    using assms(2) http cs enc(1) exit
    by (simp add: generate_ollama_request_def Let_def req io_seq_log logToFloat_writes io_bind_Some
        emitted_def)
  then show ?thesis by blast
qed

text \<open>
  C8. For a parsed and validated input whose request encodes, when the request call
  returns a nonzero status, or the read call that follows it does, the emitted output has
  \<^verbatim>\<open>success\<close> false, \<^verbatim>\<open>error_type\<close> \<^verbatim>\<open>HTTP_REQUEST_ERROR\<close> and the request URL
  under the metadata key \<^verbatim>\<open>ollama_url\<close>, and \<^verbatim>\<open>generate_ollama\<close> returns 1.
\<close>

theorem http_failure_is_http_request_error:
  assumes "output_encoder_total sl"
    and "length inputBytes \<le> 2 ^ 30"
    and "Unmarshal_input sl inputBytes = Inr input"
    and "OllamaInput.Model input \<noteq> []" and "OllamaInput.Prompt input \<noteq> []" and "OllamaURL input \<noteq> []"
    and "Marshal_request sl (apiRequest_of input) = Inr requestBody" and "requestBody \<noteq> []"
    and "http_request_status h (TrimRight (OllamaURL input) ''/'' @ ''/api/generate'') ''POST''
           (''Content-Type: application/json'' @ [CHR 0x0D, CHR 0x0A]) requestBody \<noteq> 0
         \<or> read_file_status h ''/tmp/float_http_response'' \<noteq> 0"
  shows "\<exists>out. emitted sl (fst (generate_ollama sl h inputBytes)) out
             \<and> \<not> Success out
             \<and> ErrorType out = ''HTTP_REQUEST_ERROR''
             \<and> Metadata out ''ollama_url''
                 = Some (AnyString (TrimRight (OllamaURL input) ''/'' @ ''/api/generate''))
             \<and> snd (generate_ollama sl h inputBytes) = Some 1"
proof -
  from request_http_error [OF assms(1,7,8), of h] obtain out where
    out: "emitted sl (fst (generate_ollama_request sl h input)) out"
    and props: "\<not> Success out" "ErrorType out = ''HTTP_REQUEST_ERROR''"
      "Metadata out ''ollama_url'' = Some (AnyString (TrimRight (OllamaURL input) ''/'' @ ''/api/generate''))"
    and st: "snd (generate_ollama_request sl h input) = Some 1"
    by fastforce
  have run: "filter is_write (fst (generate_ollama sl h inputBytes)) =
               filter is_write (fst (generate_ollama_request sl h input))"
       "snd (generate_ollama sl h inputBytes) = snd (generate_ollama_request sl h input)"
    using assms(2-6) by (simp_all add: generate_ollama_def io_seq_log logToFloat_writes)
  from out have "emitted sl (fst (generate_ollama sl h inputBytes)) out"
    by (simp only: emitted_same_writes [OF run(1)])
  with props st run(2) show ?thesis
    by auto
qed

theorem http_failure_is_http_request_error_witness:
  \<open>output_encoder_total (mock_stdlib scenarioA_bytes scenarioA_input (Inr scenarioA_reply))
   \<and> length scenarioA_bytes \<le> 2 ^ 30
   \<and> Unmarshal_input (mock_stdlib scenarioA_bytes scenarioA_input (Inr scenarioA_reply)) scenarioA_bytes
       = Inr scenarioA_input
   \<and> OllamaInput.Model scenarioA_input \<noteq> [] \<and> OllamaInput.Prompt scenarioA_input \<noteq> []
   \<and> OllamaURL scenarioA_input \<noteq> []
   \<and> Marshal_request (mock_stdlib scenarioA_bytes scenarioA_input (Inr scenarioA_reply))
         (apiRequest_of scenarioA_input) = Inr ''{"model":"m1","prompt":"hello"}''
   \<and> http_request_status (mock_host 7 0 0) (TrimRight (OllamaURL scenarioA_input) ''/'' @ ''/api/generate'')
         ''POST'' (''Content-Type: application/json'' @ [CHR 0x0D, CHR 0x0A])
         ''{"model":"m1","prompt":"hello"}'' \<noteq> 0
   \<and> (\<exists>out. emitted (mock_stdlib scenarioA_bytes scenarioA_input (Inr scenarioA_reply))
               (fst (generate_ollama (mock_stdlib scenarioA_bytes scenarioA_input (Inr scenarioA_reply))
                       (mock_host 7 0 0) scenarioA_bytes)) out
             \<and> \<not> Success out
             \<and> ErrorType out = ''HTTP_REQUEST_ERROR''
             \<and> Metadata out ''ollama_url''
                 = Some (AnyString (TrimRight (OllamaURL scenarioA_input) ''/'' @ ''/api/generate''))
             \<and> snd (generate_ollama (mock_stdlib scenarioA_bytes scenarioA_input (Inr scenarioA_reply))
                       (mock_host 7 0 0) scenarioA_bytes) = Some 1)\<close>
proof -
  let ?sl = "mock_stdlib scenarioA_bytes scenarioA_input (Inr scenarioA_reply)"
  have total: "output_encoder_total ?sl"
    by (simp add: output_encoder_total_def mock_stdlib_def)
  have len: "length scenarioA_bytes \<le> 2 ^ 30"
    by (simp add: scenarioA_bytes_def)
  have dec: "Unmarshal_input ?sl scenarioA_bytes = Inr scenarioA_input"
    by (simp add: mock_stdlib_def)
  have m: "OllamaInput.Model scenarioA_input \<noteq> []" and p: "OllamaInput.Prompt scenarioA_input \<noteq> []"
    and u: "OllamaURL scenarioA_input \<noteq> []"
    by (simp_all add: scenarioA_input_def)
  have enc: \<open>Marshal_request ?sl (apiRequest_of scenarioA_input) = Inr ''{"model":"m1","prompt":"hello"}''\<close>
    by (simp add: mock_stdlib_def apiRequest_of_def scenarioA_input_def)
  have ne: \<open>''{"model":"m1","prompt":"hello"}'' \<noteq> []\<close> by simp
  have st: \<open>http_request_status (mock_host 7 0 0) (TrimRight (OllamaURL scenarioA_input) ''/'' @ ''/api/generate'')
         ''POST'' (''Content-Type: application/json'' @ [CHR 0x0D, CHR 0x0A])
         ''{"model":"m1","prompt":"hello"}'' \<noteq> 0\<close>
    by (simp add: mock_host_def)
  from st have fail: \<open>http_request_status (mock_host 7 0 0)
         (TrimRight (OllamaURL scenarioA_input) ''/'' @ ''/api/generate'')
         ''POST'' (''Content-Type: application/json'' @ [CHR 0x0D, CHR 0x0A])
         ''{"model":"m1","prompt":"hello"}'' \<noteq> 0
       \<or> read_file_status (mock_host 7 0 0) ''/tmp/float_http_response'' \<noteq> 0\<close>
    by (rule disjI1)
  note concl = http_failure_is_http_request_error [OF total len dec m p u enc ne fail]
  show ?thesis
    by (intro conjI total len dec m p u enc st concl)
qed

section \<open>C7: scenario A on main.go\<close>

text \<open>
  No run of main.go's \<^verbatim>\<open>generate_ollama\<close> returns 0: \<^verbatim>\<open>makeHttpRequest\<close> never
  returns a reply, so the success case of lines 331-384 is never entered.
\<close>

lemma error_exit_not_zero:
  "snd (io_bind (writeOutputFile sl h out) (\<lambda>_. io_return (1::32 word))) \<noteq> Some 0"
  by (simp add: writeOutputFile_def io_bind_def io_return_def io_panic_def floatWriteFile_def
      split: sum.splits)

lemma makeHttpRequest_never_replies:
  "snd (makeHttpRequest h url method body) \<noteq> Some (Inr responseBody)"
  by (simp add: makeHttpRequest_def io_seq_log readHttpResponseFromFloat_def readActualOllamaResponse_def
      io_bind_def floatHttpRequest_def floatReadFile_def io_return_def io_panic_def)

lemma makeHttpRequest_outcome:
  "(\<exists>cs. makeHttpRequest h url method body = (cs, None))
   \<or> (\<exists>cs err. makeHttpRequest h url method body = (cs, Some (Inl err)))"
proof (cases "makeHttpRequest h url method body")
  case (Pair cs r)
  show ?thesis
  proof (cases r)
    case None
    with Pair show ?thesis by simp
  next
    case (Some v)
    with Pair makeHttpRequest_never_replies [of h url "method" body] show ?thesis
      by (cases v) auto
  qed
qed

lemma generate_ollama_request_never_returns_zero:
  "snd (generate_ollama_request sl h input) \<noteq> Some 0"
proof
  assume zero: "snd (generate_ollama_request sl h input) = Some 0"
  have req: "apiRequest_of (input\<lparr>OllamaURL := TrimRight (OllamaURL input) ''/''\<rparr>) = apiRequest_of input"
    by (simp add: apiRequest_of_def)
  show False
  proof (cases "Marshal_request sl (apiRequest_of input)")
    case (Inl err)
    with zero show False
      by (simp add: generate_ollama_request_def Let_def req io_seq_log error_exit_not_zero)
  next
    case (Inr requestBody)
    from makeHttpRequest_outcome [of h "TrimRight (OllamaURL input) ''/'' @ ''/api/generate''" "''POST''" requestBody]
    show False
    proof (elim disjE exE)
      fix cs
      assume "makeHttpRequest h (TrimRight (OllamaURL input) ''/'' @ ''/api/generate'') ''POST'' requestBody
                = (cs, None)"
      with Inr zero show False
        by (simp add: generate_ollama_request_def Let_def req io_seq_log io_bind_def)
    next
      fix cs err
      assume "makeHttpRequest h (TrimRight (OllamaURL input) ''/'' @ ''/api/generate'') ''POST'' requestBody
                = (cs, Some (Inl err))"
      with Inr zero show False
        by (simp add: generate_ollama_request_def Let_def req io_seq_log io_bind_Some error_exit_not_zero)
    qed
  qed
qed

lemma generate_ollama_never_returns_zero:
  "snd (generate_ollama sl h inputBytes) \<noteq> Some 0"
  by (simp add: generate_ollama_def io_seq_log io_panic_def error_exit_not_zero
      generate_ollama_request_never_returns_zero split: sum.splits)

text \<open>
  C7. The run of main.go on scenario A, with every host call answered by status 0: the
  request is sent to \<^verbatim>\<open>http://h/api/generate\<close>, the read call succeeds, and then
  \<^verbatim>\<open>readActualOllamaResponse\<close> returns its fixed error. The output written is the
  \<^verbatim>\<open>HTTP_REQUEST_ERROR\<close> output and the status is 1, where the claim has
  \<^verbatim>\<open>success: true\<close>, response \<^verbatim>\<open>hi\<close> and status 0.
\<close>

theorem scenarioA_main_go:
  \<open>generate_ollama (mock_stdlib scenarioA_bytes scenarioA_input (Inr scenarioA_reply)) (mock_host 0 0 0)
     scenarioA_bytes
   = ([FloatLog ''Starting Ollama generation request'',
       FloatLog ''Generating with model: m1'',
       FloatLog ''Prompt length: 5 characters'',
       FloatLog ''Making request to: http://h/api/generate'',
       FloatLog ''Making HTTP POST request to http://h/api/generate'',
       FloatLog ''Request body: {"model":"m1","prompt":"hello"}'',
       FloatHttpRequest ''http://h/api/generate'' ''POST''
         (''Content-Type: application/json'' @ [CHR 0x0D, CHR 0x0A]) ''{"model":"m1","prompt":"hello"}'',
       FloatLog ''Reading HTTP response from Float temporary file'',
       FloatReadFile ''/tmp/float_http_response'',
       FloatLog ''Successfully read HTTP response from Float'',
       FloatLog ''Processing real Ollama API response'',
       FloatLog (''HTTP request failed: failed to read response: ''
                 @ ''real Ollama API integration requires Float runtime HTTP response mechanism''),
       FloatWriteFile ''output.json''
         (''{"success": false, "response": "", "error": "Failed to connect to Ollama: ''
          @ ''failed to read response: ''
          @ ''real Ollama API integration requires Float runtime HTTP response mechanism''
          @ ''", "error_type": "HTTP_REQUEST_ERROR", "missing_field": ""}'')],
      Some 1)\<close>
  by (simp add: generate_ollama_def generate_ollama_request_def makeHttpRequest_def
      readHttpResponseFromFloat_def readActualOllamaResponse_def writeOutputFile_def
      logToFloat_def floatLog_def floatHttpRequest_def floatReadFile_def floatWriteFile_def
      io_seq_def io_bind_def io_return_def io_panic_def
      mock_stdlib_def mock_host_def scenarioA_bytes_def scenarioA_input_def OllamaInput_zero_def
      OllamaOutput_zero_def apiRequest_of_def TrimRight_def decimal.simps digit_def Let_def)

section \<open>The continuation that main.go never enters\<close>

text \<open>
  Lines 331-384 of main.go are written for a reply: were they entered, a reply that does
  not decode would give the \<^verbatim>\<open>RESPONSE_PARSE_ERROR\<close> output with the reply under
  \<^verbatim>\<open>raw_response\<close>, and a failed write of the success output would give status 1. No run
  of \<^verbatim>\<open>generate_ollama\<close> enters them, since \<^verbatim>\<open>makeHttpRequest\<close> never returns a reply.
\<close>

lemma interpret_undecodable_reply:
  assumes "output_encoder_total sl"
    and "Unmarshal_response sl responseBody = Inl err"
  shows "\<exists>out. emitted sl (fst (generate_ollama_interpret sl h input responseBody)) out
             \<and> \<not> Success out
             \<and> ErrorType out = ''RESPONSE_PARSE_ERROR''
             \<and> ErrorType out \<noteq> ''HTTP_REQUEST_ERROR''
             \<and> Metadata out ''raw_response'' = Some (AnyString responseBody)
             \<and> snd (generate_ollama_interpret sl h input responseBody) = Some 1"
proof -
  let ?out = "OllamaOutput_zero
      \<lparr>OllamaOutput.Success := False,
       OllamaOutput.Error := ''Invalid response from Ollama: '' @ err,
       OllamaOutput.ErrorType := ''RESPONSE_PARSE_ERROR'',
       OllamaOutput.Metadata :=
         [''error_stage'' \<mapsto> AnyString ''response_parsing'',
          ''raw_response'' \<mapsto> AnyString responseBody]\<rparr>"
  from assms(1) obtain jsonData where enc: "MarshalIndent_output sl ?out = Inr jsonData" "jsonData \<noteq> []"
    unfolding output_encoder_total_def by blast
  have exit: "io_bind (writeOutputFile sl h ?out) (\<lambda>_. io_return (1::32 word)) =
      ([FloatWriteFile ''output.json'' jsonData], Some 1)"
    by (rule error_exit [OF enc])
  have "emitted sl (fst (generate_ollama_interpret sl h input responseBody)) ?out
        \<and> snd (generate_ollama_interpret sl h input responseBody) = Some 1"
    using assms(2) enc(1) exit
    by (simp add: generate_ollama_interpret_def io_seq_log logToFloat_writes emitted_def)
  then show ?thesis
    by (intro exI [of _ ?out]) simp
qed

lemma interpret_write_failure:
  assumes "Unmarshal_response sl responseBody = Inr apiResponse"
    and "MarshalIndent_output sl (success_output input apiResponse) = Inr jsonData"
    and "jsonData \<noteq> []"
    and "write_file_status h ''output.json'' jsonData \<noteq> 0"
  shows "generate_ollama_interpret sl h input responseBody =
           ([FloatWriteFile ''output.json'' jsonData,
             FloatLog ''Failed to write output: failed to write output file''], Some 1)"
  using assms
  by (simp add: generate_ollama_interpret_def writeOutputFile_encoded io_bind_def io_seq_def
      logToFloat_def floatLog_def io_return_def)

section \<open>Validation failures\<close>

text \<open>
  In the part_000 module every validation failure takes the same exit: the output is
  \<^verbatim>\<open>createErrorOutput\<close> of the message, with the metadata tag looked up in the message.
\<close>

lemma reagent_validation_failure:
  assumes "output_encoder_total sl"
    and "length inputBytes \<le> 2 ^ 30"
    and "Unmarshal_input sl inputBytes = Inr input"
    and "validateInput input = Some err"
  shows "emitted sl (fst (generate_ollama_reagent sl h inputBytes))
           (createErrorOutput err ''VALIDATION_ERROR'' (Some (validation_metadata err)))
       \<and> snd (generate_ollama_reagent sl h inputBytes) = Some 1"
proof -
  let ?out = "createErrorOutput err ''VALIDATION_ERROR'' (Some (validation_metadata err))"
  from assms(1) obtain jsonData where enc: "MarshalIndent_output sl ?out = Inr jsonData" "jsonData \<noteq> []"
    unfolding output_encoder_total_def by blast
  have exit: "io_bind (writeOutputFile sl h ?out) (\<lambda>_. io_return (1::32 word)) =
      ([FloatWriteFile ''output.json'' jsonData], Some 1)"
    by (rule error_exit [OF enc])
  show ?thesis
    using assms(2-4) enc(1) exit
    by (simp add: generate_ollama_reagent_def io_seq_log logToFloat_writes emitted_def)
qed

lemma validation_metadata_model:
  "validation_metadata ''model field is required'' ''missing_field'' = Some (AnyString ''model'')"
  by (simp add: validation_metadata_def HasPrefix_def)

lemma validation_metadata_prompt:
  "validation_metadata ''prompt field is required'' ''missing_field'' = Some (AnyString ''prompt'')"
  by (simp add: validation_metadata_def HasPrefix_def)

lemma validation_metadata_url:
  "validation_metadata ''ollama_url field is required'' ''missing_field'' = Some (AnyString ''ollama_url'')"
  by (simp add: validation_metadata_def HasPrefix_def)

lemma validation_metadata_url_scheme:
  "validation_metadata ''ollama_url must be a valid HTTP/HTTPS URL'' ''missing_field''
     = Some (AnyString ''ollama_url'')"
  by (simp add: validation_metadata_def HasPrefix_def)

lemma validation_metadata_prompt_length:
  "validation_metadata ''prompt exceeds maximum length of 32768 characters'' ''missing_field''
     = Some (AnyString ''prompt'')"
  by (simp add: validation_metadata_def HasPrefix_def)

lemma createErrorOutput_fields:
  "\<not> Success (createErrorOutput errorMsg errorType metadata)"
  "ErrorType (createErrorOutput errorMsg errorType metadata) = errorType"
  "Error (createErrorOutput errorMsg errorType metadata) = errorMsg"
  "Metadata (createErrorOutput errorMsg errorType (Some m)) ''missing_field'' = m ''missing_field''"
  by (simp_all add: createErrorOutput_def Let_def)

lemma validateInput_missing:
  assumes "OllamaInput.Model input = [] \<or> OllamaInput.Prompt input = [] \<or> OllamaURL input = []"
  shows "\<exists>err. validateInput input = Some err
             \<and> validation_metadata err ''missing_field'' = Some (AnyString (first_missing_field input))"
  using assms validation_metadata_model validation_metadata_prompt validation_metadata_url
  by (auto simp add: validateInput_def first_missing_field_def)

lemma main_missing_field:
  assumes "output_encoder_total sl"
    and "length inputBytes \<le> 2 ^ 30"
    and "Unmarshal_input sl inputBytes = Inr input"
    and "OllamaInput.Model input = [] \<or> OllamaInput.Prompt input = [] \<or> OllamaURL input = []"
  shows "\<exists>msg. emitted sl (fst (generate_ollama sl h inputBytes))
                 (missing_field_output msg (first_missing_field input))
             \<and> snd (generate_ollama sl h inputBytes) = Some 1"
proof -
  have exit: "\<exists>jsonData. MarshalIndent_output sl out = Inr jsonData
      \<and> io_bind (writeOutputFile sl h out) (\<lambda>_. io_return (1::32 word)) =
          ([FloatWriteFile ''output.json'' jsonData], Some 1)" for out
    using assms(1) error_exit [of sl out _ h] unfolding output_encoder_total_def by blast
  consider (m) "OllamaInput.Model input = []"
    | (p) "OllamaInput.Model input \<noteq> []" "OllamaInput.Prompt input = []"
    | (u) "OllamaInput.Model input \<noteq> []" "OllamaInput.Prompt input \<noteq> []" "OllamaURL input = []"
    using assms(4) by blast
  then show ?thesis
  proof cases
    case m
    from exit [of "missing_field_output ''Model field is required'' ''model''"] m assms(2,3)
    show ?thesis
      by (intro exI [of _ "''Model field is required''"])
         (auto simp add: generate_ollama_def io_seq_log logToFloat_writes emitted_def first_missing_field_def)
  next
    case p
    from exit [of "missing_field_output ''Prompt field is required'' ''prompt''"] p assms(2,3)
    show ?thesis
      by (intro exI [of _ "''Prompt field is required''"])
         (auto simp add: generate_ollama_def io_seq_log logToFloat_writes emitted_def first_missing_field_def)
  next
    case u
    let ?msg = "''ollama_url field is required - please specify the Ollama server URL ''
                  @ ''(e.g., '' @ [CHR 0x27] @ ''http://localhost:11434'' @ [CHR 0x27] @ '')''"
    from exit [of "missing_field_output ?msg ''ollama_url''"] u assms(2,3)
    show ?thesis
      by (intro exI [of _ ?msg])
         (auto simp add: generate_ollama_def io_seq_log logToFloat_writes emitted_def first_missing_field_def)
  qed
qed

section \<open>C4: a missing required field\<close>

text \<open>
  C4. For every input buffer that decodes to an input whose model, prompt or ollama_url is
  empty (a field missing from the JSON decodes to the empty string), both modules emit an
  output with \<^verbatim>\<open>success\<close> false, \<^verbatim>\<open>error_type\<close> \<^verbatim>\<open>VALIDATION_ERROR\<close> and the metadata
  entry \<^verbatim>\<open>missing_field\<close> naming the offending field, the first empty one in the order
  model, prompt, ollama_url, and \<^verbatim>\<open>generate_ollama\<close> returns 1.
\<close>

theorem missing_field_is_validation_error:
  assumes "output_encoder_total sl"
    and "length inputBytes \<le> 2 ^ 30"
    and "Unmarshal_input sl inputBytes = Inr input"
    and "OllamaInput.Model input = [] \<or> OllamaInput.Prompt input = [] \<or> OllamaURL input = []"
  shows "(\<exists>out. emitted sl (fst (generate_ollama sl h inputBytes)) out
              \<and> \<not> Success out
              \<and> ErrorType out = ''VALIDATION_ERROR''
              \<and> Metadata out ''missing_field'' = Some (AnyString (first_missing_field input)))
       \<and> snd (generate_ollama sl h inputBytes) = Some 1
       \<and> (\<exists>out. emitted sl (fst (generate_ollama_reagent sl h inputBytes)) out
              \<and> \<not> Success out
              \<and> ErrorType out = ''VALIDATION_ERROR''
              \<and> Metadata out ''missing_field'' = Some (AnyString (first_missing_field input)))
       \<and> snd (generate_ollama_reagent sl h inputBytes) = Some 1"
proof -
  from main_missing_field [OF assms, of h] obtain msg where
    main: "emitted sl (fst (generate_ollama sl h inputBytes))
             (missing_field_output msg (first_missing_field input))"
    and main_status: "snd (generate_ollama sl h inputBytes) = Some 1"
    by blast
  have main_out: "\<exists>out. emitted sl (fst (generate_ollama sl h inputBytes)) out
      \<and> \<not> Success out \<and> ErrorType out = ''VALIDATION_ERROR''
      \<and> Metadata out ''missing_field'' = Some (AnyString (first_missing_field input))"
    using main
    by (intro exI [of _ "missing_field_output msg (first_missing_field input)"])
       (simp add: missing_field_output_def)
  from validateInput_missing [OF assms(4)] obtain err where
    err: "validateInput input = Some err"
    and tag: "validation_metadata err ''missing_field'' = Some (AnyString (first_missing_field input))"
    by blast
  from reagent_validation_failure [OF assms(1-3) err, of h]
  have reagent: "emitted sl (fst (generate_ollama_reagent sl h inputBytes))
       (createErrorOutput err ''VALIDATION_ERROR'' (Some (validation_metadata err)))"
    and reagent_status: "snd (generate_ollama_reagent sl h inputBytes) = Some 1"
    by simp_all
  have reagent_out: "\<exists>out. emitted sl (fst (generate_ollama_reagent sl h inputBytes)) out
      \<and> \<not> Success out \<and> ErrorType out = ''VALIDATION_ERROR''
      \<and> Metadata out ''missing_field'' = Some (AnyString (first_missing_field input))"
    using reagent tag
    by (intro exI [of _ "createErrorOutput err ''VALIDATION_ERROR'' (Some (validation_metadata err))"])
       (simp add: createErrorOutput_fields)
  from main_out main_status reagent_out reagent_status show ?thesis
    by (intro conjI)
qed

theorem missing_field_is_validation_error_witness:
  \<open>output_encoder_total (mock_stdlib scenarioB_bytes scenarioB_input (Inr scenarioA_reply))
   \<and> length scenarioB_bytes \<le> 2 ^ 30
   \<and> Unmarshal_input (mock_stdlib scenarioB_bytes scenarioB_input (Inr scenarioA_reply)) scenarioB_bytes
       = Inr scenarioB_input
   \<and> OllamaURL scenarioB_input = []
   \<and> first_missing_field scenarioB_input = ''ollama_url''
   \<and> (\<exists>out. emitted (mock_stdlib scenarioB_bytes scenarioB_input (Inr scenarioA_reply))
               (fst (generate_ollama (mock_stdlib scenarioB_bytes scenarioB_input (Inr scenarioA_reply))
                       (mock_host 0 0 0) scenarioB_bytes)) out
              \<and> \<not> Success out
              \<and> ErrorType out = ''VALIDATION_ERROR''
              \<and> Metadata out ''missing_field'' = Some (AnyString ''ollama_url''))
   \<and> snd (generate_ollama (mock_stdlib scenarioB_bytes scenarioB_input (Inr scenarioA_reply))
             (mock_host 0 0 0) scenarioB_bytes) = Some 1
   \<and> (\<exists>out. emitted (mock_stdlib scenarioB_bytes scenarioB_input (Inr scenarioA_reply))
               (fst (generate_ollama_reagent (mock_stdlib scenarioB_bytes scenarioB_input (Inr scenarioA_reply))
                       (mock_host 0 0 0) scenarioB_bytes)) out
              \<and> \<not> Success out
              \<and> ErrorType out = ''VALIDATION_ERROR''
              \<and> Metadata out ''missing_field'' = Some (AnyString ''ollama_url''))
   \<and> snd (generate_ollama_reagent (mock_stdlib scenarioB_bytes scenarioB_input (Inr scenarioA_reply))
             (mock_host 0 0 0) scenarioB_bytes) = Some 1\<close>
proof -
  let ?sl = "mock_stdlib scenarioB_bytes scenarioB_input (Inr scenarioA_reply)"
  have total: "output_encoder_total ?sl"
    by (simp add: output_encoder_total_def mock_stdlib_def)
  have len: "length scenarioB_bytes \<le> 2 ^ 30"
    by (simp add: scenarioB_bytes_def)
  have dec: "Unmarshal_input ?sl scenarioB_bytes = Inr scenarioB_input"
    by (simp add: mock_stdlib_def)
  have u: "OllamaURL scenarioB_input = []"
    by (simp add: scenarioB_input_def OllamaInput_zero_def)
  then have missing: "OllamaInput.Model scenarioB_input = [] \<or> OllamaInput.Prompt scenarioB_input = []
      \<or> OllamaURL scenarioB_input = []"
    by simp
  have field: "first_missing_field scenarioB_input = ''ollama_url''"
    by (simp add: first_missing_field_def scenarioB_input_def OllamaInput_zero_def)
  note concl = missing_field_is_validation_error [OF total len dec missing, of "mock_host 0 0 0",
      unfolded field]
  show ?thesis
    by (intro conjI total len dec u field concl [THEN conjunct1]
        concl [THEN conjunct2, THEN conjunct1]
        concl [THEN conjunct2, THEN conjunct2, THEN conjunct1]
        concl [THEN conjunct2, THEN conjunct2, THEN conjunct2])
qed

section \<open>C5: the order of the checks\<close>

lemma first_violation_None:
  "first_violation cs input = None \<longleftrightarrow> list_all (\<lambda>c. \<not> fst c input) cs"
  by (induction cs) simp_all

text \<open>
  C5, as amended. \<^verbatim>\<open>validateInput\<close> is a function of the input alone; it passes or
  reports exactly one failure, the first violated check in the order: model empty, prompt
  empty, ollama_url empty, ollama_url scheme, prompt length, system message length,
  temperature range, top_p range. It passes exactly when no check is violated.
\<close>

theorem validateInput_first_violation:
  "validateInput input = first_violation code_order input
   \<and> (validateInput input = None \<longleftrightarrow> list_all (\<lambda>c. \<not> fst c input) code_order)"
proof -
  have "validateInput input = first_violation code_order input"
    by (simp add: validateInput_def code_order_def model_missing_def prompt_missing_def url_missing_def
        url_scheme_def prompt_too_long_def system_too_long_def temperature_range_def top_p_range_def
        split: option.splits)
  then show ?thesis
    by (simp add: first_violation_None)
qed

text \<open>
  C5 as stated (target id, then payload, then endpoint, then tuning parameters) fails: for
  a prompt of 32769 bytes together with an \<^verbatim>\<open>ftp\<close> endpoint, the payload violation
  comes first in that order, but \<^verbatim>\<open>validateInput\<close> reports the endpoint.
\<close>

theorem validateInput_not_spec_order:
  "validateInput (OllamaInput_zero\<lparr>OllamaInput.Model := ''m1'',
                    OllamaInput.Prompt := replicate 32769 (CHR ''a''), OllamaURL := ''ftp://h''\<rparr>)
     = Some ''ollama_url must be a valid HTTP/HTTPS URL''
   \<and> first_violation spec_order
         (OllamaInput_zero\<lparr>OllamaInput.Model := ''m1'',
            OllamaInput.Prompt := replicate 32769 (CHR ''a''), OllamaURL := ''ftp://h''\<rparr>)
     = Some ''prompt exceeds maximum length of 32768 characters''"
  by (simp add: validateInput_def spec_order_def model_missing_def prompt_missing_def url_missing_def
      url_scheme_def prompt_too_long_def HasPrefix_def OllamaInput_zero_def)

section \<open>C6: the bound on the prompt length\<close>

text \<open>
  C6. Take any input that passes validation and replace its prompt: with a prompt of
  exactly 32768 bytes it still passes; with a prompt of 32769 bytes \<^verbatim>\<open>validateInput\<close>
  fails on the prompt length, and \<^verbatim>\<open>generate_ollama\<close> of the part_000 module emits
  \<^verbatim>\<open>VALIDATION_ERROR\<close> with \<^verbatim>\<open>missing_field\<close> \<^verbatim>\<open>prompt\<close> and returns 1.
\<close>

theorem prompt_length_boundary:
  assumes "validateInput input = None"
    and "length atBound = 32768"
    and "length over = 32769"
    and "output_encoder_total sl"
    and "length inputBytes \<le> 2 ^ 30"
    and "Unmarshal_input sl inputBytes = Inr (input\<lparr>OllamaInput.Prompt := over\<rparr>)"
  shows "validateInput (input\<lparr>OllamaInput.Prompt := atBound\<rparr>) = None
       \<and> validateInput (input\<lparr>OllamaInput.Prompt := over\<rparr>)
           = Some ''prompt exceeds maximum length of 32768 characters''
       \<and> (\<exists>out. emitted sl (fst (generate_ollama_reagent sl h inputBytes)) out
              \<and> \<not> Success out
              \<and> ErrorType out = ''VALIDATION_ERROR''
              \<and> Metadata out ''missing_field'' = Some (AnyString ''prompt''))
       \<and> snd (generate_ollama_reagent sl h inputBytes) = Some 1"
proof -
  from assms(2) have ne1: "atBound \<noteq> []" by auto
  from assms(3) have ne2: "over \<noteq> []" by auto
  have pass: "validateInput (input\<lparr>OllamaInput.Prompt := atBound\<rparr>) = None"
    using assms(1,2) ne1
    by (auto simp add: validateInput_def split: if_splits)
  have fail: "validateInput (input\<lparr>OllamaInput.Prompt := over\<rparr>)
      = Some ''prompt exceeds maximum length of 32768 characters''"
    using assms(1,3) ne2
    by (auto simp add: validateInput_def split: if_splits)
  from reagent_validation_failure [OF assms(4-6) fail, of h]
  have out: "emitted sl (fst (generate_ollama_reagent sl h inputBytes))
       (createErrorOutput ''prompt exceeds maximum length of 32768 characters'' ''VALIDATION_ERROR''
          (Some (validation_metadata ''prompt exceeds maximum length of 32768 characters'')))"
    and status: "snd (generate_ollama_reagent sl h inputBytes) = Some 1"
    by simp_all
  have "\<exists>out. emitted sl (fst (generate_ollama_reagent sl h inputBytes)) out
      \<and> \<not> Success out \<and> ErrorType out = ''VALIDATION_ERROR''
      \<and> Metadata out ''missing_field'' = Some (AnyString ''prompt'')"
    using out validation_metadata_prompt_length
    by (intro exI [of _ "createErrorOutput ''prompt exceeds maximum length of 32768 characters''
          ''VALIDATION_ERROR''
          (Some (validation_metadata ''prompt exceeds maximum length of 32768 characters''))"])
       (simp add: createErrorOutput_fields)
  with pass fail status show ?thesis
    by (intro conjI)
qed

theorem prompt_length_boundary_witness:
  \<open>validateInput scenarioA_input = None
   \<and> length (replicate 32768 (CHR ''a'')) = 32768
   \<and> length long_prompt = 32769
   \<and> output_encoder_total
         (mock_stdlib long_prompt_bytes (scenarioA_input\<lparr>OllamaInput.Prompt := long_prompt\<rparr>) (Inr scenarioA_reply))
   \<and> length long_prompt_bytes \<le> 2 ^ 30
   \<and> Unmarshal_input
         (mock_stdlib long_prompt_bytes (scenarioA_input\<lparr>OllamaInput.Prompt := long_prompt\<rparr>) (Inr scenarioA_reply))
         long_prompt_bytes
       = Inr (scenarioA_input\<lparr>OllamaInput.Prompt := long_prompt\<rparr>)
   \<and> validateInput (scenarioA_input\<lparr>OllamaInput.Prompt := replicate 32768 (CHR ''a'')\<rparr>) = None
   \<and> validateInput (scenarioA_input\<lparr>OllamaInput.Prompt := long_prompt\<rparr>)
       = Some ''prompt exceeds maximum length of 32768 characters''
   \<and> (\<exists>out. emitted
               (mock_stdlib long_prompt_bytes (scenarioA_input\<lparr>OllamaInput.Prompt := long_prompt\<rparr>)
                  (Inr scenarioA_reply))
               (fst (generate_ollama_reagent
                       (mock_stdlib long_prompt_bytes (scenarioA_input\<lparr>OllamaInput.Prompt := long_prompt\<rparr>)
                          (Inr scenarioA_reply))
                       (mock_host 0 0 0) long_prompt_bytes)) out
              \<and> \<not> Success out
              \<and> ErrorType out = ''VALIDATION_ERROR''
              \<and> Metadata out ''missing_field'' = Some (AnyString ''prompt''))
   \<and> snd (generate_ollama_reagent
             (mock_stdlib long_prompt_bytes (scenarioA_input\<lparr>OllamaInput.Prompt := long_prompt\<rparr>)
                (Inr scenarioA_reply))
             (mock_host 0 0 0) long_prompt_bytes) = Some 1\<close>
proof -
  let ?input = "scenarioA_input\<lparr>OllamaInput.Prompt := long_prompt\<rparr>"
  let ?sl = "mock_stdlib long_prompt_bytes ?input (Inr scenarioA_reply)"
  have valid: "validateInput scenarioA_input = None"
    by (simp add: validateInput_def scenarioA_input_def OllamaInput_zero_def HasPrefix_def)
  have l1: "length (replicate 32768 (CHR ''a'')) = 32768" by simp
  have l2: "length long_prompt = 32769" by (simp add: long_prompt_def)
  have total: "output_encoder_total ?sl"
    by (simp add: output_encoder_total_def mock_stdlib_def)
  have len: "length long_prompt_bytes \<le> 2 ^ 30"
    by (simp add: long_prompt_bytes_def l2)
  have dec: "Unmarshal_input ?sl long_prompt_bytes = Inr ?input"
    by (simp add: mock_stdlib_def)
  note concl = prompt_length_boundary [OF valid l1 l2 total len dec, of "mock_host 0 0 0"]
  show ?thesis
    by (intro conjI valid l1 l2 total len dec concl [THEN conjunct1]
        concl [THEN conjunct2, THEN conjunct1]
        concl [THEN conjunct2, THEN conjunct2, THEN conjunct1]
        concl [THEN conjunct2, THEN conjunct2, THEN conjunct2])
qed

section \<open>C10: an endpoint with the wrong scheme\<close>

text \<open>
  C10, as amended. For every input whose model and prompt are not empty and whose
  ollama_url is not empty but starts with neither \<^verbatim>\<open>http://\<close> nor \<^verbatim>\<open>https://\<close>,
  validation fails, and the emitted output has \<^verbatim>\<open>error_type\<close> \<^verbatim>\<open>VALIDATION_ERROR\<close> and
  \<^verbatim>\<open>missing_field\<close> \<^verbatim>\<open>ollama_url\<close>, although the field is present: the tag is found
  by searching the error message for the field name.
\<close>

theorem bad_scheme_is_tagged_ollama_url:
  assumes "output_encoder_total sl"
    and "length inputBytes \<le> 2 ^ 30"
    and "Unmarshal_input sl inputBytes = Inr input"
    and "OllamaInput.Model input \<noteq> []" and "OllamaInput.Prompt input \<noteq> []"
    and "OllamaURL input \<noteq> []"
    and "\<not> HasPrefix (OllamaURL input) ''http://''" and "\<not> HasPrefix (OllamaURL input) ''https://''"
  shows "validateInput input = Some ''ollama_url must be a valid HTTP/HTTPS URL''
       \<and> (\<exists>out. emitted sl (fst (generate_ollama_reagent sl h inputBytes)) out
              \<and> \<not> Success out
              \<and> ErrorType out = ''VALIDATION_ERROR''
              \<and> Metadata out ''missing_field'' = Some (AnyString ''ollama_url''))
       \<and> snd (generate_ollama_reagent sl h inputBytes) = Some 1"
proof -
  have fail: "validateInput input = Some ''ollama_url must be a valid HTTP/HTTPS URL''"
    using assms(4-8) by (simp add: validateInput_def)
  from reagent_validation_failure [OF assms(1-3) fail, of h]
  have out: "emitted sl (fst (generate_ollama_reagent sl h inputBytes))
       (createErrorOutput ''ollama_url must be a valid HTTP/HTTPS URL'' ''VALIDATION_ERROR''
          (Some (validation_metadata ''ollama_url must be a valid HTTP/HTTPS URL'')))"
    and status: "snd (generate_ollama_reagent sl h inputBytes) = Some 1"
    by simp_all
  have "\<exists>out. emitted sl (fst (generate_ollama_reagent sl h inputBytes)) out
      \<and> \<not> Success out \<and> ErrorType out = ''VALIDATION_ERROR''
      \<and> Metadata out ''missing_field'' = Some (AnyString ''ollama_url'')"
    using out validation_metadata_url_scheme
    by (intro exI [of _ "createErrorOutput ''ollama_url must be a valid HTTP/HTTPS URL''
          ''VALIDATION_ERROR'' (Some (validation_metadata ''ollama_url must be a valid HTTP/HTTPS URL''))"])
       (simp add: createErrorOutput_fields)
  with fail status show ?thesis
    by (intro conjI)
qed

theorem bad_scheme_is_tagged_ollama_url_witness:
  \<open>output_encoder_total (mock_stdlib ftp_bytes ftp_input (Inr scenarioA_reply))
   \<and> length ftp_bytes \<le> 2 ^ 30
   \<and> Unmarshal_input (mock_stdlib ftp_bytes ftp_input (Inr scenarioA_reply)) ftp_bytes = Inr ftp_input
   \<and> OllamaInput.Model ftp_input \<noteq> [] \<and> OllamaInput.Prompt ftp_input \<noteq> []
   \<and> OllamaURL ftp_input \<noteq> []
   \<and> \<not> HasPrefix (OllamaURL ftp_input) ''http://'' \<and> \<not> HasPrefix (OllamaURL ftp_input) ''https://''
   \<and> validateInput ftp_input = Some ''ollama_url must be a valid HTTP/HTTPS URL''
   \<and> (\<exists>out. emitted (mock_stdlib ftp_bytes ftp_input (Inr scenarioA_reply))
               (fst (generate_ollama_reagent (mock_stdlib ftp_bytes ftp_input (Inr scenarioA_reply))
                       (mock_host 0 0 0) ftp_bytes)) out
              \<and> \<not> Success out
              \<and> ErrorType out = ''VALIDATION_ERROR''
              \<and> Metadata out ''missing_field'' = Some (AnyString ''ollama_url''))
   \<and> snd (generate_ollama_reagent (mock_stdlib ftp_bytes ftp_input (Inr scenarioA_reply))
             (mock_host 0 0 0) ftp_bytes) = Some 1\<close>
proof -
  let ?sl = "mock_stdlib ftp_bytes ftp_input (Inr scenarioA_reply)"
  have total: "output_encoder_total ?sl"
    by (simp add: output_encoder_total_def mock_stdlib_def)
  have len: "length ftp_bytes \<le> 2 ^ 30"
    by (simp add: ftp_bytes_def)
  have dec: "Unmarshal_input ?sl ftp_bytes = Inr ftp_input"
    by (simp add: mock_stdlib_def)
  have m: "OllamaInput.Model ftp_input \<noteq> []" and p: "OllamaInput.Prompt ftp_input \<noteq> []"
    and u: "OllamaURL ftp_input \<noteq> []"
    and s1: "\<not> HasPrefix (OllamaURL ftp_input) ''http://''"
    and s2: "\<not> HasPrefix (OllamaURL ftp_input) ''https://''"
    by (simp_all add: ftp_input_def scenarioA_input_def HasPrefix_def)
  note concl = bad_scheme_is_tagged_ollama_url [OF total len dec m p u s1 s2, of "mock_host 0 0 0"]
  show ?thesis
    by (intro conjI total len dec m p u s1 s2 concl [THEN conjunct1]
        concl [THEN conjunct2, THEN conjunct1] concl [THEN conjunct2, THEN conjunct2])
qed

text \<open>
  C10 as stated (every input with such an endpoint) fails: when the model is missing as
  well, the model check comes first and the tag is \<^verbatim>\<open>model\<close>.
\<close>

theorem bad_scheme_without_model:
  \<open>OllamaURL ftp_no_model_input = ''ftp://h''
   \<and> validateInput ftp_no_model_input = Some ''model field is required''
   \<and> filter is_write
         (fst (generate_ollama_reagent (mock_stdlib ftp_no_model_bytes ftp_no_model_input (Inr scenarioA_reply))
                 (mock_host 0 0 0) ftp_no_model_bytes))
       = [FloatWriteFile ''output.json''
            (''{"success": false, "response": "", "error": "model field is required", ''
             @ ''"error_type": "VALIDATION_ERROR", "missing_field": "model"}'')]
   \<and> snd (generate_ollama_reagent (mock_stdlib ftp_no_model_bytes ftp_no_model_input (Inr scenarioA_reply))
             (mock_host 0 0 0) ftp_no_model_bytes) = Some 1\<close>
proof -
  let ?sl = "mock_stdlib ftp_no_model_bytes ftp_no_model_input (Inr scenarioA_reply)"
  have url: "OllamaURL ftp_no_model_input = ''ftp://h''"
    by (simp add: ftp_no_model_input_def ftp_input_def)
  have fail: "validateInput ftp_no_model_input = Some ''model field is required''"
    by (simp add: validateInput_def ftp_no_model_input_def)
  have total: "output_encoder_total ?sl"
    by (simp add: output_encoder_total_def mock_stdlib_def)
  have len: "length ftp_no_model_bytes \<le> 2 ^ 30"
    by (simp add: ftp_no_model_bytes_def)
  have dec: "Unmarshal_input ?sl ftp_no_model_bytes = Inr ftp_no_model_input"
    by (simp add: mock_stdlib_def)
  have enc: \<open>MarshalIndent_output ?sl
      (createErrorOutput ''model field is required'' ''VALIDATION_ERROR''
         (Some (validation_metadata ''model field is required'')))
    = Inr (''{"success": false, "response": "", "error": "model field is required", ''
             @ ''"error_type": "VALIDATION_ERROR", "missing_field": "model"}'')\<close>
    by (simp add: mock_stdlib_def createErrorOutput_fields validation_metadata_model)
       (simp add: createErrorOutput_def OllamaOutput_zero_def Let_def)
  from reagent_validation_failure [OF total len dec fail, of "mock_host 0 0 0"] enc
  have \<open>filter is_write (fst (generate_ollama_reagent ?sl (mock_host 0 0 0) ftp_no_model_bytes))
       = [FloatWriteFile ''output.json''
            (''{"success": false, "response": "", "error": "model field is required", ''
             @ ''"error_type": "VALIDATION_ERROR", "missing_field": "model"}'')]\<close>
    and "snd (generate_ollama_reagent ?sl (mock_host 0 0 0) ftp_no_model_bytes) = Some 1"
    by (simp_all add: emitted_def)
  with url fail show ?thesis
    by (intro conjI)
qed

section \<open>The success path in the part_000 module\<close>

text \<open>
  In the part_000 module the reply is simulated, so the paths that main.go never enters
  are taken there. On scenario A: with every status 0 the run returns 0; with a failing
  write it returns 1 (the case of C2); with a reply that does not decode it writes the
  \<^verbatim>\<open>RESPONSE_PARSE_ERROR\<close> output and returns 1 (the case of C9).
\<close>

lemmas reagent_defs =
  generate_ollama_reagent_def generate_ollama_reagent_request_def generate_ollama_reagent_interpret_def
  makeHttpRequest_reagent_def writeOutputFile_def validateInput_def
  logToFloat_def floatLog_def floatHttpRequest_def floatWriteFile_def
  io_seq_def io_bind_def io_return_def io_panic_def
  mock_stdlib_def mock_host_def scenarioA_bytes_def scenarioA_input_def scenarioA_reply_def
  OllamaInput_zero_def OllamaAPIResponse_zero_def apiRequest_of_def TrimRight_def HasPrefix_def
  success_output_reagent_def createErrorOutput_def OllamaOutput_zero_def buildMetadata_def
  extractModelFromRequest_def decimal.simps digit_def Let_def

lemma reagent_scenarioA_status:
  "snd (generate_ollama_reagent (mock_stdlib scenarioA_bytes scenarioA_input (Inr scenarioA_reply))
          (mock_host 0 0 0) scenarioA_bytes) = Some 0"
  by (simp add: reagent_defs)

lemma reagent_scenarioA_write_fails:
  "snd (generate_ollama_reagent (mock_stdlib scenarioA_bytes scenarioA_input (Inr scenarioA_reply))
          (mock_host 0 0 1) scenarioA_bytes) = Some 1"
  by (simp add: reagent_defs)

lemma reagent_scenarioA_reply_undecodable:
  \<open>filter is_write
     (fst (generate_ollama_reagent (mock_stdlib scenarioA_bytes scenarioA_input (Inl ''invalid character''))
          (mock_host 0 0 0) scenarioA_bytes))
   = [FloatWriteFile ''output.json''
        (''{"success": false, "response": "", "error": "Invalid response from Ollama server: invalid character", ''
         @ ''"error_type": "RESPONSE_PARSE_ERROR", "missing_field": ""}'')]
   \<and> snd (generate_ollama_reagent (mock_stdlib scenarioA_bytes scenarioA_input (Inl ''invalid character''))
          (mock_host 0 0 0) scenarioA_bytes) = Some 1\<close>
  by (simp add: reagent_defs)

section \<open>C2: a failed write\<close>

text \<open>
  The property \<^const>\<open>failed_write_returns_1\<close> holds of every exit and is kept by logging
  and by running a computation that makes no write before another that has it.
\<close>

lemma logToFloat_no_write: "FloatWriteFile path data \<notin> set (fst (logToFloat msg))"
  by (simp add: logToFloat_def io_return_def floatLog_def)

lemma fw_log:
  "failed_write_returns_1 h k \<Longrightarrow> failed_write_returns_1 h (io_seq (logToFloat msg) k)"
  by (simp add: failed_write_returns_1_def io_seq_log logToFloat_no_write)

lemma fw_panic: "failed_write_returns_1 h io_panic"
  by (simp add: failed_write_returns_1_def io_panic_def)

lemma fw_error_exit:
  "failed_write_returns_1 h (io_bind (writeOutputFile sl h out) (\<lambda>_. io_return (1::32 word)))"
  by (simp add: failed_write_returns_1_def writeOutputFile_def io_bind_def io_return_def io_panic_def
      floatWriteFile_def split: sum.splits)

lemma fw_bind:
  assumes "\<And>path data. FloatWriteFile path data \<notin> set (fst m)"
    and "\<And>x. failed_write_returns_1 h (f x)"
  shows "failed_write_returns_1 h (io_bind m f)"
proof (cases m)
  case (Pair cs r)
  with assms(1) have cs: "FloatWriteFile path data \<notin> set cs" for path data
    by fastforce
  show ?thesis
  proof (cases r)
    case None
    with Pair cs show ?thesis
      by (simp add: failed_write_returns_1_def io_bind_def)
  next
    case (Some x)
    with Pair have "io_bind m f = (cs @ fst (f x), snd (f x))"
      by (simp add: io_bind_def split: prod.splits)
    with cs assms(2) [of x] show ?thesis
      by (simp add: failed_write_returns_1_def)
  qed
qed

lemma fw_write_then_status:
  "failed_write_returns_1 h
     (io_bind (writeOutputFile sl h out) (\<lambda>writeErr.
        case writeErr of
          Some e \<Rightarrow> io_seq (logToFloat (msg e)) (io_return 1)
        | None \<Rightarrow> io_seq (logToFloat m1) (io_seq (logToFloat m2) (io_return 0))))"
  by (simp add: failed_write_returns_1_def writeOutputFile_def io_bind_def io_seq_def io_return_def
      io_panic_def floatWriteFile_def logToFloat_def floatLog_def split: sum.splits)

lemma makeHttpRequest_no_write:
  "FloatWriteFile path data \<notin> set (fst (makeHttpRequest h url meth body))"
  by (simp add: makeHttpRequest_def readHttpResponseFromFloat_def readActualOllamaResponse_def
      io_seq_def io_bind_def floatHttpRequest_def floatReadFile_def io_return_def io_panic_def
      logToFloat_def floatLog_def)

lemma makeHttpRequest_reagent_no_write:
  "FloatWriteFile path data \<notin> set (fst (makeHttpRequest_reagent sl h url meth body))"
  by (simp add: makeHttpRequest_reagent_def io_seq_def io_bind_def floatHttpRequest_def io_return_def
      io_panic_def logToFloat_def floatLog_def)

lemma fw_interpret: "failed_write_returns_1 h (generate_ollama_interpret sl h input responseBody)"
  unfolding generate_ollama_interpret_def
  by (auto split: sum.splits intro!: fw_log fw_error_exit fw_write_then_status)

lemma fw_request: "failed_write_returns_1 h (generate_ollama_request sl h input)"
  unfolding generate_ollama_request_def Let_def
  by (auto split: sum.splits intro!: fw_log fw_error_exit fw_bind makeHttpRequest_no_write fw_interpret)

lemma fw_generate_ollama: "failed_write_returns_1 h (generate_ollama sl h inputBytes)"
  unfolding generate_ollama_def
  by (auto split: sum.splits intro!: fw_log fw_error_exit fw_panic fw_request)

lemma fw_reagent_interpret:
  "failed_write_returns_1 h (generate_ollama_reagent_interpret sl h input responseBody)"
  unfolding generate_ollama_reagent_interpret_def
  by (auto split: sum.splits intro!: fw_log fw_error_exit fw_write_then_status)

lemma fw_reagent_request: "failed_write_returns_1 h (generate_ollama_reagent_request sl h input)"
  unfolding generate_ollama_reagent_request_def Let_def
  by (auto split: sum.splits
      intro!: fw_log fw_error_exit fw_bind makeHttpRequest_reagent_no_write fw_reagent_interpret)

lemma fw_generate_ollama_reagent: "failed_write_returns_1 h (generate_ollama_reagent sl h inputBytes)"
  unfolding generate_ollama_reagent_def
  by (auto split: sum.splits option.splits intro!: fw_log fw_error_exit fw_panic fw_reagent_request)

text \<open>
  The success case of the part_000 module, where it is live: for an input that is parsed
  and validated, whose request encodes and is sent with status 0, and whose simulated
  reply decodes, the one write of the run is the write of the success output, and the
  status is 0 exactly when that write returned 0.
\<close>

lemma reagent_success_case:
  assumes "length inputBytes \<le> 2 ^ 30"
    and "Unmarshal_input sl inputBytes = Inr input"
    and "validateInput input = None"
    and "Marshal_request sl (apiRequest_of (prepared_input input)) = Inr requestBody"
    and "requestBody \<noteq> []"
    and "http_request_status h (OllamaURL (prepared_input input) @ ''/api/generate'') ''POST''
           (''Content-Type: application/json'' @ [CHR 0x0D, CHR 0x0A]) requestBody = 0"
    and "Unmarshal_response sl
           (simulatedResponse (extractModelFromRequest sl requestBody) (Now_RFC3339 sl)) = Inr apiResponse"
    and "MarshalIndent_output sl (success_output_reagent (prepared_input input) apiResponse) = Inr jsonData"
    and "jsonData \<noteq> []"
  shows "filter is_write (fst (generate_ollama_reagent sl h inputBytes)) =
           [FloatWriteFile ''output.json'' jsonData]
       \<and> snd (generate_ollama_reagent sl h inputBytes) =
           Some (if write_file_status h ''output.json'' jsonData \<noteq> 0 then 1 else 0)"
proof (cases "OllamaInput.Stream input = None")
  case True
  have p: "prepared_input input =
      input\<lparr>OllamaURL := TrimRight (OllamaURL input) ''/'', OllamaInput.Stream := Some False\<rparr>"
    by (simp add: prepared_input_def Let_def True)
  show ?thesis
    using assms [unfolded p] True
    by (simp add: generate_ollama_reagent_def generate_ollama_reagent_request_def
        generate_ollama_reagent_interpret_def makeHttpRequest_reagent_def writeOutputFile_def
        floatWriteFile_def floatHttpRequest_def io_seq_log io_bind_def io_return_def
        logToFloat_writes Let_def)
next
  case False
  then obtain stream where stream: "OllamaInput.Stream input = Some stream"
    by blast
  have p: "prepared_input input = input\<lparr>OllamaURL := TrimRight (OllamaURL input) ''/''\<rparr>"
    by (simp add: prepared_input_def Let_def stream)
  show ?thesis
    using assms [unfolded p] stream
    by (simp add: generate_ollama_reagent_def generate_ollama_reagent_request_def
        generate_ollama_reagent_interpret_def makeHttpRequest_reagent_def writeOutputFile_def
        floatWriteFile_def floatHttpRequest_def io_seq_log io_bind_def io_return_def
        logToFloat_writes Let_def)
qed

text \<open>
  C2. For both entry points, \<^verbatim>\<open>generate_ollama\<close> of main.go and of the part_000 module,
  and for every input buffer and host: a run in which a write call returned a nonzero
  status returns 1. So when the pipeline reaches the success case and the write of the
  success output returns a nonzero status, the status returned to the host is nonzero.
  In main.go the writes that occur are those of error outputs, since its success case is
  never entered; in the part_000 module the success case is the one described above.
\<close>

theorem failed_write_returns_one:
  assumes "write_file_status h path data \<noteq> 0"
  shows "(FloatWriteFile path data \<in> set (fst (generate_ollama sl h inputBytes))
            \<longrightarrow> snd (generate_ollama sl h inputBytes) = Some 1)
       \<and> (FloatWriteFile path data \<in> set (fst (generate_ollama_reagent sl h inputBytes))
            \<longrightarrow> snd (generate_ollama_reagent sl h inputBytes) = Some 1)"
  using assms fw_generate_ollama [of h sl inputBytes] fw_generate_ollama_reagent [of h sl inputBytes]
  unfolding failed_write_returns_1_def by blast

theorem failed_write_returns_one_witness:
  \<open>write_file_status (mock_host 0 0 1) ''output.json''
       (''{"success": false, "response": "", "error": "Failed to connect to Ollama: ''
        @ ''failed to read response: ''
        @ ''real Ollama API integration requires Float runtime HTTP response mechanism''
        @ ''", "error_type": "HTTP_REQUEST_ERROR", "missing_field": ""}'') \<noteq> 0
   \<and> FloatWriteFile ''output.json''
       (''{"success": false, "response": "", "error": "Failed to connect to Ollama: ''
        @ ''failed to read response: ''
        @ ''real Ollama API integration requires Float runtime HTTP response mechanism''
        @ ''", "error_type": "HTTP_REQUEST_ERROR", "missing_field": ""}'')
       \<in> set (fst (generate_ollama (mock_stdlib scenarioA_bytes scenarioA_input (Inr scenarioA_reply))
                       (mock_host 0 0 1) scenarioA_bytes))
   \<and> snd (generate_ollama (mock_stdlib scenarioA_bytes scenarioA_input (Inr scenarioA_reply))
             (mock_host 0 0 1) scenarioA_bytes) = Some 1
   \<and> write_file_status (mock_host 0 0 1) ''output.json''
       ''{"success": true, "response": "hi", "error": "", "error_type": "", "missing_field": ""}'' \<noteq> 0
   \<and> FloatWriteFile ''output.json''
       ''{"success": true, "response": "hi", "error": "", "error_type": "", "missing_field": ""}''
       \<in> set (fst (generate_ollama_reagent (mock_stdlib scenarioA_bytes scenarioA_input (Inr scenarioA_reply))
                       (mock_host 0 0 1) scenarioA_bytes))
   \<and> snd (generate_ollama_reagent (mock_stdlib scenarioA_bytes scenarioA_input (Inr scenarioA_reply))
             (mock_host 0 0 1) scenarioA_bytes) = Some 1\<close>
proof -
  let ?sl = "mock_stdlib scenarioA_bytes scenarioA_input (Inr scenarioA_reply)"
  let ?h = "mock_host 0 0 1"
  let ?failure = \<open>''{"success": false, "response": "", "error": "Failed to connect to Ollama: ''
        @ ''failed to read response: ''
        @ ''real Ollama API integration requires Float runtime HTTP response mechanism''
        @ ''", "error_type": "HTTP_REQUEST_ERROR", "missing_field": ""}''\<close>
  let ?success = \<open>''{"success": true, "response": "hi", "error": "", "error_type": "", "missing_field": ""}''\<close>
  have st: "write_file_status ?h ''output.json'' data \<noteq> 0" for data
    by (simp add: mock_host_def)
  have main: "FloatWriteFile ''output.json'' ?failure \<in> set (fst (generate_ollama ?sl ?h scenarioA_bytes))"
    by (simp add: generate_ollama_def generate_ollama_request_def makeHttpRequest_def
        readHttpResponseFromFloat_def readActualOllamaResponse_def writeOutputFile_def
        logToFloat_def floatLog_def floatHttpRequest_def floatReadFile_def floatWriteFile_def
        io_seq_def io_bind_def io_return_def io_panic_def
        mock_stdlib_def mock_host_def scenarioA_bytes_def scenarioA_input_def OllamaInput_zero_def
        OllamaOutput_zero_def apiRequest_of_def TrimRight_def decimal.simps digit_def Let_def)
  have reagent: "FloatWriteFile ''output.json'' ?success
      \<in> set (fst (generate_ollama_reagent ?sl ?h scenarioA_bytes))"
    by (simp add: reagent_defs)
  from failed_write_returns_one [OF st [of ?failure], where sl = ?sl and inputBytes = scenarioA_bytes] main
  have main_status: "snd (generate_ollama ?sl ?h scenarioA_bytes) = Some 1"
    by blast
  from failed_write_returns_one [OF st [of ?success], where sl = ?sl and inputBytes = scenarioA_bytes] reagent
  have reagent_status: "snd (generate_ollama_reagent ?sl ?h scenarioA_bytes) = Some 1"
    by blast
  show ?thesis
    by (intro conjI st main main_status reagent reagent_status)
qed

section \<open>C9: a reply that does not decode, on main.go\<close>

text \<open>
  A run of main.go does not depend on how replies decode: the decoder is never consulted.
\<close>

lemma writeOutputFile_ignores_reply_decoder:
  "writeOutputFile (sl\<lparr>Unmarshal_response := u\<rparr>) h out = writeOutputFile sl h out"
  by (simp add: writeOutputFile_def)

lemma generate_ollama_request_ignores_reply_decoder:
  "generate_ollama_request (sl\<lparr>Unmarshal_response := u\<rparr>) h input = generate_ollama_request sl h input"
proof (cases "Marshal_request sl (apiRequest_of input)")
  case (Inl err)
  then show ?thesis
    by (simp add: generate_ollama_request_def Let_def apiRequest_of_def writeOutputFile_ignores_reply_decoder)
next
  case (Inr requestBody)
  from makeHttpRequest_outcome [of h "TrimRight (OllamaURL input) ''/'' @ ''/api/generate''" "''POST''" requestBody]
  show ?thesis
  proof (elim disjE exE)
    fix cs
    assume "makeHttpRequest h (TrimRight (OllamaURL input) ''/'' @ ''/api/generate'') ''POST'' requestBody
              = (cs, None)"
    with Inr show ?thesis
      by (simp add: generate_ollama_request_def Let_def apiRequest_of_def io_bind_def)
  next
    fix cs err
    assume "makeHttpRequest h (TrimRight (OllamaURL input) ''/'' @ ''/api/generate'') ''POST'' requestBody
              = (cs, Some (Inl err))"
    with Inr show ?thesis
      by (simp add: generate_ollama_request_def Let_def apiRequest_of_def io_bind_Some
          writeOutputFile_ignores_reply_decoder)
  qed
qed

lemma generate_ollama_ignores_reply_decoder:
  "generate_ollama (sl\<lparr>Unmarshal_response := u\<rparr>) h inputBytes = generate_ollama sl h inputBytes"
  by (simp add: generate_ollama_def writeOutputFile_ignores_reply_decoder
      generate_ollama_request_ignores_reply_decoder split: sum.splits)

text \<open>
  C9. The run of main.go on the input of scenario A, with every host call answered by
  status 0 and a reply that does not decode: the request is sent and the read call is
  made, but the reply bytes are never fetched nor decoded; the output written is the
  \<^verbatim>\<open>HTTP_REQUEST_ERROR\<close> output, with no \<^verbatim>\<open>raw_response\<close>, and the status is 1, where
  the claim has \<^verbatim>\<open>RESPONSE_PARSE_ERROR\<close> with the raw reply. The cause is the one of C7:
  \<^verbatim>\<open>readActualOllamaResponse\<close> returns its fixed error.
\<close>

theorem undecodable_reply_main_go:
  \<open>Unmarshal_response (mock_stdlib scenarioA_bytes scenarioA_input (Inl ''invalid character''))
       ''<html>'' = Inl ''invalid character''
   \<and> filter (\<lambda>c. is_http_request c \<or> c = FloatReadFile ''/tmp/float_http_response'')
         (fst (generate_ollama (mock_stdlib scenarioA_bytes scenarioA_input (Inl ''invalid character''))
                 (mock_host 0 0 0) scenarioA_bytes))
       = [FloatHttpRequest ''http://h/api/generate'' ''POST''
            (''Content-Type: application/json'' @ [CHR 0x0D, CHR 0x0A]) ''{"model":"m1","prompt":"hello"}'',
          FloatReadFile ''/tmp/float_http_response'']
   \<and> filter is_write
         (fst (generate_ollama (mock_stdlib scenarioA_bytes scenarioA_input (Inl ''invalid character''))
                 (mock_host 0 0 0) scenarioA_bytes))
       = [FloatWriteFile ''output.json''
            (''{"success": false, "response": "", "error": "Failed to connect to Ollama: ''
             @ ''failed to read response: ''
             @ ''real Ollama API integration requires Float runtime HTTP response mechanism''
             @ ''", "error_type": "HTTP_REQUEST_ERROR", "missing_field": ""}'')]
   \<and> snd (generate_ollama (mock_stdlib scenarioA_bytes scenarioA_input (Inl ''invalid character''))
             (mock_host 0 0 0) scenarioA_bytes) = Some 1\<close>
  by (simp add: generate_ollama_def generate_ollama_request_def makeHttpRequest_def
      readHttpResponseFromFloat_def readActualOllamaResponse_def writeOutputFile_def
      logToFloat_def floatLog_def floatHttpRequest_def floatReadFile_def floatWriteFile_def
      io_seq_def io_bind_def io_return_def io_panic_def
      mock_stdlib_def mock_host_def scenarioA_bytes_def scenarioA_input_def OllamaInput_zero_def
      OllamaOutput_zero_def apiRequest_of_def TrimRight_def decimal.simps digit_def Let_def)

end
